theory Spec2Isabelle
  imports Complex_Main "HOL-Library.AList"
begin

section \<open>JavaScript values\<close>

text \<open>
  Optional object fields are \<open>option\<close> values, \<open>None\<close> standing for \<open>undefined\<close>.
\<close>

definition truthy_str :: "string option \<Rightarrow> bool" where
  \<comment> \<open>truthiness of an optional string: \<open>undefined\<close> and the empty string are falsy\<close>
  "truthy_str v = (case v of None \<Rightarrow> False | Some s \<Rightarrow> s \<noteq> [])"

subsection \<open>Numbers of the decision validator: IEEE 754 binary64\<close>

text \<open>
  A JavaScript number is a double. \<open>Fin m e\<close> is the finite value \<open>m * 2 ^ e\<close>, \<open>Inf neg\<close>
  an infinity (\<open>neg\<close> for the negative one). The sign of a zero is not kept: the validator
  only multiplies, compares with \<open>>\<close> and tests truthiness, and none of these
  distinguishes \<open>-0\<close> from \<open>0\<close>.
\<close>

datatype double = Fin int int | Inf bool | NaN

definition dval :: "double \<Rightarrow> rat" where
  \<comment> \<open>the value of a finite double\<close>
  "dval d =
     (case d of
        Fin m e \<Rightarrow> (if 0 \<le> e then of_int m * 2 ^ nat e else of_int m / 2 ^ nat (- e))
      | _ \<Rightarrow> 0)"

function bit_length :: "int \<Rightarrow> int" where
  "bit_length a = (if a \<le> 0 then 0 else 1 + bit_length (a div 2))"
  by pat_completeness auto
termination
  by (relation "measure nat") auto

declare bit_length.simps [simp del]

definition round_half_even :: "int \<Rightarrow> nat \<Rightarrow> int" where
  \<comment> \<open>\<open>a / 2 ^ k\<close> for \<open>a \<ge> 0\<close>, rounded to the nearest integer, a tie to the even one\<close>
  "round_half_even a k =
     (let q0 = a div 2 ^ k; r = a mod 2 ^ k
      in if 2 * r > 2 ^ k \<or> (2 * r = 2 ^ k \<and> odd q0) then q0 + 1 else q0)"

text \<open>
  The double nearest to the exact value \<open>M * 2 ^ E\<close>, ties to even: 53 significant bits,
  the unit in the last place not below \<open>2 ^ -1074\<close> (gradual underflow), and overflow to an
  infinity from \<open>2 ^ 1024\<close> on.
\<close>

definition round_to_double :: "int \<Rightarrow> int \<Rightarrow> double" where
  "round_to_double M E =
     (if M = 0 then Fin 0 0
      else
        (let a = \<bar>M\<bar>;
             q = max (bit_length a + E - 53) (- 1074);
             m = (if q \<le> E then a * 2 ^ nat (E - q) else round_half_even a (nat (q - E)))
         in if bit_length m + q > 1024 then Inf (M < 0)
            else Fin (if M < 0 then - m else m) q))"

fun dmul :: "double \<Rightarrow> double \<Rightarrow> double" where
  \<comment> \<open>\<open>x * y\<close>\<close>
  "dmul NaN y = NaN"
| "dmul x NaN = NaN"
| "dmul (Inf s) (Inf t) = Inf (s \<noteq> t)"
| "dmul (Inf s) (Fin m e) = (if m = 0 then NaN else Inf (s \<noteq> (m < 0)))"
| "dmul (Fin m e) (Inf s) = (if m = 0 then NaN else Inf (s \<noteq> (m < 0)))"
| "dmul (Fin m1 e1) (Fin m2 e2) = round_to_double (m1 * m2) (e1 + e2)"

fun dgt :: "double \<Rightarrow> double \<Rightarrow> bool" where
  \<comment> \<open>\<open>x > y\<close>\<close>
  "dgt NaN y = False"
| "dgt x NaN = False"
| "dgt (Inf s) (Inf t) = (\<not> s \<and> t)"
| "dgt (Inf s) (Fin m e) = (\<not> s)"
| "dgt (Fin m e) (Inf t) = t"
| "dgt (Fin m1 e1) (Fin m2 e2) =
     (m1 * 2 ^ nat (e1 - min e1 e2) > m2 * 2 ^ nat (e2 - min e1 e2))"

fun dbl_nonzero :: "double \<Rightarrow> bool" where
  \<comment> \<open>truthiness of a number: \<open>0\<close>, \<open>-0\<close> and \<open>NaN\<close> are falsy\<close>
  "dbl_nonzero (Fin m e) = (m \<noteq> 0)"
| "dbl_nonzero (Inf s) = True"
| "dbl_nonzero NaN = False"

definition truthy_num :: "double option \<Rightarrow> bool" where
  \<comment> \<open>truthiness of an optional number\<close>
  "truthy_num v = (case v of None \<Rightarrow> False | Some x \<Rightarrow> dbl_nonzero x)"

definition num_or :: "double option \<Rightarrow> double \<Rightarrow> double" where
  \<comment> \<open>\<open>v || d\<close> on numbers\<close>
  "num_or v d = (case v of None \<Rightarrow> d | Some x \<Rightarrow> if dbl_nonzero x then x else d)"

definition double_0_05 :: double where
  \<comment> \<open>the literal \<open>0.05\<close>\<close>
  "double_0_05 = Fin 7205759403792794 (- 57)"

definition double_of_int :: "int \<Rightarrow> double" where
  \<comment> \<open>an integer of at most 53 bits as a double\<close>
  "double_of_int n = Fin n 0"

section \<open>The decision loop: data\<close>

text \<open>
  The records keep the fields that the modelled functions read or write. Left out are the
  positions of a portfolio, the strategy of a configuration, the memory of an agent and
  the confidence of a decision.
\<close>

record ai_decision =
  action :: "string option"
  reasoning :: "string option"
  quantity :: "double option"
  price :: "double option"
  symbol :: "string option"

record portfolio =
  totalValue :: double
  cash :: double
  pnl :: double

record agent_config =
  decisionInterval :: "nat option"
  maxRiskPerTrade :: "double option"
  symbols :: "string list"

subsection \<open>validateDecision\<close>

definition validateDecision :: "ai_decision \<Rightarrow> portfolio \<Rightarrow> agent_config \<Rightarrow> bool" where
  "validateDecision decision pf cfg =
     (if \<not> truthy_str (action decision) \<or> \<not> truthy_str (reasoning decision) then False
      else if action decision = Some ''buy'' \<and> truthy_num (quantity decision)
              \<and> (let cost = dmul (num_or (quantity decision) (Fin 0 0))
                                   (num_or (price decision) (Fin 0 0));
                      maxRisk = dmul (cash pf) (num_or (maxRiskPerTrade cfg) double_0_05)
                  in dgt cost maxRisk)
           then False
      else if truthy_str (symbol decision)
              \<and> (case symbol decision of None \<Rightarrow> False | Some s \<Rightarrow> s \<notin> set (symbols cfg))
           then False
      else True)"

subsection \<open>Agents and the state of the decision loop\<close>

datatype agent_status = AgentActive | AgentPaused | AgentStopped | AgentError

record performance =
  totalPnL :: rat
  winRate :: rat
  trades :: int
  successfulDecisions :: int
  totalDecisions :: int

record agent =
  agent_id :: string
  agent_name :: string
  agent_type :: string
  status :: agent_status
  config :: agent_config
  performance :: performance

text \<open>
  A timer armed by \<open>setInterval\<close>: its period and the agent object captured by the callback.
\<close>

record timer =
  interval_ms :: nat
  captured :: agent

text \<open>
  The two maps of \<open>AgentDecisionLoop\<close> are insertion-ordered association lists.
  \<open>statusReports\<close> is the external status store behind \<open>updateAgentStatus\<close>
  (the backend, or localStorage when the backend fails): the reports in the order they are made.
\<close>

record loop_state =
  activeLoops :: "(string \<times> timer) list"
  agentStates :: "(string \<times> agent) list"
  statusReports :: "(string \<times> agent_status) list"

datatype loop_error = AgentNotFound string

definition updateAgentStatus :: "loop_state \<Rightarrow> string \<Rightarrow> agent_status \<Rightarrow> loop_state" where
  "updateAgentStatus st agentId s = st\<lparr>statusReports := statusReports st @ [(agentId, s)]\<rparr>"

definition clearLoop :: "loop_state \<Rightarrow> string \<Rightarrow> loop_state" where
  \<comment> \<open>the common first step of \<open>stopAgent\<close> and \<open>pauseAgent\<close>: cancel and forget the timer\<close>
  "clearLoop st agentId =
     (case map_of (activeLoops st) agentId of
        None \<Rightarrow> st
      | Some interval \<Rightarrow> st\<lparr>activeLoops := AList.delete agentId (activeLoops st)\<rparr>)"

definition setStatus :: "loop_state \<Rightarrow> string \<Rightarrow> agent_status \<Rightarrow> loop_state" where
  \<comment> \<open>\<open>if (agent) this.agentStates.set(agentId, { ...agent, status })\<close>\<close>
  "setStatus st agentId s =
     (case map_of (agentStates st) agentId of
        None \<Rightarrow> st
      | Some agent \<Rightarrow>
          st\<lparr>agentStates := AList.update agentId (agent\<lparr>status := s\<rparr>) (agentStates st)\<rparr>)"

definition stopAgent :: "loop_state \<Rightarrow> string \<Rightarrow> loop_state" where
  "stopAgent st agentId =
     updateAgentStatus (setStatus (clearLoop st agentId) agentId AgentStopped) agentId AgentStopped"

definition pauseAgent :: "loop_state \<Rightarrow> string \<Rightarrow> loop_state" where
  "pauseAgent st agentId =
     updateAgentStatus (setStatus (clearLoop st agentId) agentId AgentPaused) agentId AgentPaused"

text \<open>
  \<open>loadAgent\<close> reads the backend and then localStorage; it is a parameter, \<open>None\<close> when
  neither has the agent. \<open>initializeServices\<close> only logs.
\<close>

definition startAgent ::
  "(string \<Rightarrow> agent option) \<Rightarrow> loop_state \<Rightarrow> string \<Rightarrow> (loop_error + unit) \<times> loop_state" where
  "startAgent loadAgent st agentId =
     (case loadAgent agentId of
        None \<Rightarrow> (Inl (AgentNotFound agentId), updateAgentStatus st agentId AgentError)
      | Some agent \<Rightarrow>
          (let st1 = stopAgent st agentId;
               interval = \<lparr>interval_ms =
                             (case decisionInterval (config agent) of
                                None \<Rightarrow> 30000
                              | Some ms \<Rightarrow> if ms \<noteq> 0 then ms else 30000),
                           captured = agent\<rparr>;
               st2 = st1\<lparr>activeLoops := AList.update agentId interval (activeLoops st1)\<rparr>;
               st3 = st2\<lparr>agentStates :=
                            AList.update agentId (agent\<lparr>status := AgentActive\<rparr>) (agentStates st2)\<rparr>
           in (Inr (), updateAgentStatus st3 agentId AgentActive)))"

subsection \<open>Bulk operations\<close>




definition getActiveAgents :: "loop_state \<Rightarrow> string list" where
  "getActiveAgents st = map fst (activeLoops st)"

definition stopAllAgents :: "loop_state \<Rightarrow> loop_state" where
  "stopAllAgents st = fold (\<lambda>agentId s. stopAgent s agentId) (getActiveAgents st) st"

subsection \<open>The decision cycle\<close>

datatype cycle_result = Success | ValidationFailed | ExecutionFailed

definition updatePerformance :: "loop_state \<Rightarrow> string \<Rightarrow> cycle_result \<Rightarrow> loop_state" where
  "updatePerformance st agentId result =
     (case map_of (agentStates st) agentId of
        None \<Rightarrow> st
      | Some agent \<Rightarrow>
          (let p = performance agent;
               p1 = p\<lparr>totalDecisions := totalDecisions p + 1\<rparr>;
               p2 = (if result = Success
                     then p1\<lparr>successfulDecisions := successfulDecisions p1 + 1\<rparr> else p1)
           in st\<lparr>agentStates := AList.update agentId (agent\<lparr>performance := p2\<rparr>) (agentStates st)\<rparr>))"

definition handleDecisionError :: "loop_state \<Rightarrow> string \<Rightarrow> loop_state" where
  "handleDecisionError st agentId =
     (case map_of (agentStates st) agentId of
        None \<Rightarrow> st
      | Some agent \<Rightarrow>
          (let st1 = st\<lparr>agentStates :=
                          AList.update agentId (agent\<lparr>status := AgentError\<rparr>) (agentStates st)\<rparr>;
               st2 = updateAgentStatus st1 agentId AgentError;
               errorCount = totalDecisions (performance agent) - successfulDecisions (performance agent)
           in if errorCount > 10 then stopAgent st2 agentId else st2))"

text \<open>
  What one cycle receives from outside. Market data, portfolio and memory fetches fall back
  to mock data and never throw. \<open>cy_decision\<close> is the answer of the decision provider,
  \<open>None\<close> when it throws; \<open>cy_execute_throws\<close> and \<open>cy_memory_throws\<close> say whether
  \<open>executeDecision\<close> and \<open>updateMemory\<close> throw (both do only when the backend and
  localStorage fail together).
\<close>

record cycle_input =
  cy_portfolio :: portfolio
  cy_decision :: "ai_decision option"
  cy_execute_throws :: bool
  cy_memory_throws :: bool

definition executeDecisionCycle :: "loop_state \<Rightarrow> agent \<Rightarrow> cycle_input \<Rightarrow> loop_state" where
  "executeDecisionCycle st agent inp =
     (case cy_decision inp of
        None \<Rightarrow> handleDecisionError st (agent_id agent)
      | Some decision \<Rightarrow>
          if validateDecision decision (cy_portfolio inp) (config agent)
          then (if cy_execute_throws inp \<or> cy_memory_throws inp
                then handleDecisionError st (agent_id agent)
                else updatePerformance st (agent_id agent) Success)
          else (if cy_memory_throws inp
                then handleDecisionError st (agent_id agent)
                else updatePerformance st (agent_id agent) ValidationFailed))"

text \<open>
  The inputs on which \<open>executeDecisionCycle\<close> ends in its \<open>catch\<close> block.
\<close>

definition cycle_fails :: "agent \<Rightarrow> cycle_input \<Rightarrow> bool" where
  "cycle_fails agent inp =
     (case cy_decision inp of
        None \<Rightarrow> True
      | Some decision \<Rightarrow>
          if validateDecision decision (cy_portfolio inp) (config agent)
          then cy_execute_throws inp \<or> cy_memory_throws inp
          else cy_memory_throws inp)"

text \<open>
  One firing of an agent's timer: the callback runs only while the timer is armed, with the
  agent object it captured when the agent was started.
\<close>

definition timer_tick :: "loop_state \<Rightarrow> string \<Rightarrow> cycle_input \<Rightarrow> loop_state" where
  "timer_tick st agentId inp =
     (case map_of (activeLoops st) agentId of
        None \<Rightarrow> st
      | Some t \<Rightarrow> executeDecisionCycle st (captured t) inp)"

definition getAgentStatus :: "loop_state \<Rightarrow> string \<Rightarrow> string" where
  "getAgentStatus st agentId =
     (case map_of (agentStates st) agentId of
        None \<Rightarrow> ''unknown''
      | Some agent \<Rightarrow>
          (case status agent of
             AgentActive \<Rightarrow> ''active'' | AgentPaused \<Rightarrow> ''paused''
           | AgentStopped \<Rightarrow> ''stopped'' | AgentError \<Rightarrow> ''error''))"

section \<open>The MCP integration service: data\<close>

text \<open>
  The numbers of the usage statistics are modelled by exact rationals.
\<close>

datatype json =
    JUndefined | JNull | JBool bool | JNum rat | JStr string
  | JArr "json list" | JObj "(string \<times> json) list"

type_synonym js_record = "(string \<times> json) list"

definition js_get :: "js_record \<Rightarrow> string \<Rightarrow> json" where
  \<comment> \<open>property read \<open>r.k\<close>\<close>
  "js_get r k = (case map_of r k of None \<Rightarrow> JUndefined | Some v \<Rightarrow> v)"

fun js_truthy :: "json \<Rightarrow> bool" where
  "js_truthy JUndefined = False"
| "js_truthy JNull = False"
| "js_truthy (JBool b) = b"
| "js_truthy (JNum x) = (x \<noteq> 0)"
| "js_truthy (JStr s) = (s \<noteq> [])"
| "js_truthy (JArr xs) = True"
| "js_truthy (JObj fs) = True"

definition js_or :: "json \<Rightarrow> json \<Rightarrow> json" where
  "js_or a b = (if js_truthy a then a else b)"

fun opt_field :: "json \<Rightarrow> string \<Rightarrow> json" where
  \<comment> \<open>optional chaining \<open>v?.k\<close> for a data property \<open>k\<close>\<close>
  "opt_field (JObj fs) k = js_get fs k"
| "opt_field v k = JUndefined"

definition digit_char :: "nat \<Rightarrow> char" where
  "digit_char d = ''0123456789'' ! d"

function string_of_nat :: "nat \<Rightarrow> string" where
  "string_of_nat n =
     (if n < 10 then [digit_char n] else string_of_nat (n div 10) @ [digit_char (n mod 10)])"
  by pat_completeness auto
termination
  by (relation "measure id") auto

declare string_of_nat.simps [simp del]

datatype param_type = PString | PNumber | PBoolean | PObject | PArray

record validation =
  v_min :: "rat option"
  v_max :: "rat option"
  v_pattern :: "string option"
  v_enum :: "string list option"

record mcp_parameter =
  p_name :: string
  p_type :: param_type
  p_description :: string
  p_required :: bool
  p_default :: "json option"
  p_validation :: "validation option"

record tool_usage =
  totalCalls :: nat
  lastUsed :: nat
  successRate :: rat
  avgResponseTime :: rat

record mcp_tool =
  tool_id :: string
  tool_name :: string
  description :: string
  category :: string
  version :: string
  permissions :: "string list"
  parameters :: "mcp_parameter list"
  enabled :: bool
  usage :: tool_usage

record restrictions =
  maxCallsPerMinute :: nat
  maxCallsPerDay :: nat
  requireApproval :: "string list"
  blockedTools :: "string list"

datatype log_level = Minimal | Detailed | Verbose

record audit =
  audit_enabled :: bool
  logLevel :: log_level
  retentionDays :: nat

record mcp_agent_permissions =
  perm_agentId :: string
  allowedTools :: "string list"
  allowedCategories :: "string list"
  restrictions :: restrictions
  audit :: audit

record call_context =
  sessionId :: string
  requestId :: string
  userContext :: json

record mcp_call_log =
  log_id :: string
  log_agentId :: string
  log_toolId :: string
  log_parameters :: js_record
  response :: json
  success :: bool
  error :: "string option"
  timestamp :: nat
  duration :: int
  log_context :: call_context

datatype session_status = SessionActive | SessionCompleted | SessionError | SessionTimeout

record mcp_session =
  session_id :: string
  session_agentId :: string
  startTime :: nat
  endTime :: "nat option"
  session_totalCalls :: nat
  successfulCalls :: nat
  failedCalls :: nat
  session_tools :: "string list"
  session_status :: session_status

record rate_limit =
  rl_count :: nat
  resetTime :: nat

text \<open>
  An invocation of a tool implementation by \<open>executeTool\<close>, with the parameters and the
  context it is given.
\<close>

datatype impl_call =
    ExecuteTradeOrder js_record js_record
  | AnalyzeMarketSentiment js_record js_record
  | CreateTodo js_record js_record

text \<open>
  The maps of \<open>MCPIntegrationService\<close> are insertion-ordered association lists; the map
  of servers, which only the heartbeat touches, is left out.
  \<open>dispatched\<close> is not a field of the class: it records, in order, every invocation of a tool
  implementation, so that the number of dispatches can be stated.
\<close>

record mcp_state =
  tools :: "(string \<times> mcp_tool) list"
  agentPermissions :: "(string \<times> mcp_agent_permissions) list"
  callLogs :: "mcp_call_log list"
  sessions :: "(string \<times> mcp_session) list"
  rateLimits :: "(string \<times> rate_limit) list"
  dispatched :: "impl_call list"

datatype mcp_error =
    NotRegistered
  | ToolUnavailable string
  | ToolNotImplemented string
  | ServiceFailure string

fun error_toString :: "mcp_error \<Rightarrow> string" where
  "error_toString NotRegistered = ''Error: Agent not registered for MCP''"
| "error_toString (ToolUnavailable toolId) = ''Error: Tool not found or disabled: '' @ toolId"
| "error_toString (ToolNotImplemented toolId) = ''Error: Tool not implemented: '' @ toolId"
| "error_toString (ServiceFailure msg) = msg"

text \<open>
  What one \<open>callTool\<close> receives from outside: the readings of \<open>Date.now()\<close> in the order
  they are taken, the random suffix of the call id, and the two lazily loaded services the
  tool implementations call. A service is \<open>None\<close> while its reference is \<open>null\<close>; applied
  to its arguments it returns a value or throws (\<open>Inl\<close>, with the text of the error).
\<close>

record call_env =
  now_start :: nat
  now_callId :: nat
  random_suffix :: string
  persistentTradingEngine :: "(json list \<Rightarrow> string + json) option"
  agentTodoService :: "(json list \<Rightarrow> string + json) option"
  now_impl :: nat
  now_logged :: nat
  now_usage :: nat
  now_lastUsed :: nat

section \<open>The MCP integration service: operations\<close>

subsection \<open>The tool registry\<close>

definition no_usage :: tool_usage where
  "no_usage = \<lparr>totalCalls = 0, lastUsed = 0, successRate = 0, avgResponseTime = 0\<rparr>"

definition param ::
  "string \<Rightarrow> param_type \<Rightarrow> string \<Rightarrow> bool \<Rightarrow> validation option \<Rightarrow> mcp_parameter" where
  "param n t d r v =
     \<lparr>p_name = n, p_type = t, p_description = d, p_required = r, p_default = None,
      p_validation = v\<rparr>"

definition enum_of :: "string list \<Rightarrow> validation option" where
  "enum_of es = Some \<lparr>v_min = None, v_max = None, v_pattern = None, v_enum = Some es\<rparr>"

definition place_order_tool :: mcp_tool where
  "place_order_tool =
     \<lparr>tool_id = ''trading.place_order'', tool_name = ''Place Trading Order'',
      description = ''Execute a trading order through the paper trading engine'',
      category = ''trading'', version = ''1.0.0'', permissions = [''trading.execute''],
      parameters =
        [param ''symbol'' PString ''Trading pair symbol'' True None,
         param ''side'' PString ''Order side (buy/sell)'' True (enum_of [''buy'', ''sell'']),
         param ''amount'' PNumber ''Order amount'' True
           (Some \<lparr>v_min = Some 0, v_max = None, v_pattern = None, v_enum = None\<rparr>),
         param ''type'' PString ''Order type'' False (enum_of [''market'', ''limit'']),
         param ''price'' PNumber ''Limit price (for limit orders)'' False None],
      enabled = True, usage = no_usage\<rparr>"

definition market_sentiment_tool :: mcp_tool where
  "market_sentiment_tool =
     \<lparr>tool_id = ''analysis.market_sentiment'', tool_name = ''Analyze Market Sentiment'',
      description = ''Get market sentiment analysis using AI'',
      category = ''analysis'', version = ''1.0.0'', permissions = [''analysis.read''],
      parameters =
        [param ''symbol'' PString ''Asset symbol to analyze'' True None,
         param ''timeframe'' PString ''Analysis timeframe'' False
           (enum_of [''1h'', ''4h'', ''1d'', ''1w''])],
      enabled = True, usage = no_usage\<rparr>"

definition create_todo_tool :: mcp_tool where
  "create_todo_tool =
     \<lparr>tool_id = ''system.create_todo'', tool_name = ''Create Todo Item'',
      description = ''Create a new todo item for the agent'',
      category = ''system'', version = ''1.0.0'', permissions = [''system.write''],
      parameters =
        [param ''title'' PString ''Todo title'' True None,
         param ''description'' PString ''Todo description'' False None,
         param ''priority'' PString ''Todo priority'' False (enum_of [''low'', ''medium'', ''high''])],
      enabled = True, usage = no_usage\<rparr>"

definition initializeDefaultTools :: "mcp_state \<Rightarrow> mcp_state" where
  "initializeDefaultTools st =
     st\<lparr>tools :=
          AList.update ''system.create_todo'' create_todo_tool
            (AList.update ''analysis.market_sentiment'' market_sentiment_tool
               (AList.update ''trading.place_order'' place_order_tool (tools st)))\<rparr>"

subsection \<open>Permissions\<close>

definition getToolsForPermissions :: "mcp_state \<Rightarrow> string list \<Rightarrow> string list" where
  "getToolsForPermissions st perms =
     map tool_id
       (filter (\<lambda>tool. list_ex (\<lambda>perm. perm \<in> set perms) (permissions tool))
          (map snd (tools st)))"

definition createAgentPermissions :: "mcp_state \<Rightarrow> string \<Rightarrow> mcp_agent_permissions" where
  \<comment> \<open>the second argument is \<open>agent.id\<close>, the only field of the agent that is read\<close>
  "createAgentPermissions st agentRecordId =
     (let basePermissions = [''trading.read'', ''analysis.read'', ''system.write'', ''data.write''];
          allowed = getToolsForPermissions st basePermissions
      in \<lparr>perm_agentId = agentRecordId,
          allowedTools = allowed,
          allowedCategories = [''trading'', ''analysis'', ''system'', ''data''],
          restrictions =
            \<lparr>maxCallsPerMinute = 60, maxCallsPerDay = 5000,
             requireApproval = [''trading.place_order''], blockedTools = []\<rparr>,
          audit = \<lparr>audit_enabled = True, logLevel = Detailed, retentionDays = 30\<rparr>\<rparr>)"

definition getAvailableTools :: "mcp_state \<Rightarrow> string \<Rightarrow> mcp_tool list" where
  "getAvailableTools st agentId =
     (case map_of (agentPermissions st) agentId of
        None \<Rightarrow> []
      | Some perms \<Rightarrow>
          filter (\<lambda>tool.
              enabled tool
              \<and> (tool_id tool \<in> set (allowedTools perms)
                 \<or> category tool \<in> set (allowedCategories perms))
              \<and> tool_id tool \<notin> set (blockedTools (restrictions perms)))
            (map snd (tools st)))"

subsection \<open>Sessions\<close>

text \<open>
  \<open>createSession\<close> reads the clock twice, for the id and for the start time.
\<close>

definition createSession :: "string \<Rightarrow> nat \<Rightarrow> nat \<Rightarrow> mcp_session" where
  "createSession agentId now_id now_started =
     \<lparr>session_id = ''session_'' @ agentId @ ''_'' @ string_of_nat now_id,
      session_agentId = agentId,
      startTime = now_started,
      endTime = None,
      session_totalCalls = 0, successfulCalls = 0, failedCalls = 0,
      session_tools = [],
      session_status = SessionActive\<rparr>"

text \<open>
  \<open>getAgent\<close> is the lookup of the agent persistence service, giving the \<open>id\<close> field of
  the agent found. Persisting the data and emitting the event do not change the state.
\<close>

definition activateForAgent ::
  "(string \<Rightarrow> string option) \<Rightarrow> mcp_state \<Rightarrow> string \<Rightarrow> nat \<Rightarrow> nat
     \<Rightarrow> (string list + unit) \<times> mcp_state" where
  "activateForAgent getAgent st agentId now_id now_started =
     (case getAgent agentId of
        None \<Rightarrow> (Inl [''Agent not found''], st)
      | Some agentRecordId \<Rightarrow>
          (let perms = createAgentPermissions st agentRecordId;
               st1 = st\<lparr>agentPermissions := AList.update agentId perms (agentPermissions st)\<rparr>;
               session = createSession agentId now_id now_started;
               st2 = st1\<lparr>sessions := AList.update (session_id session) session (sessions st1)\<rparr>
           in (Inr (), st2)))"

text \<open>
  \<open>deactivateForAgent\<close> stamps every session of the agent; the model takes one reading of
  the clock for all of them.
\<close>

definition deactivateForAgent :: "mcp_state \<Rightarrow> string \<Rightarrow> nat \<Rightarrow> mcp_state" where
  "deactivateForAgent st agentId now =
     st\<lparr>sessions :=
          map (\<lambda>(k, s). (k, if session_agentId s = agentId
                             then s\<lparr>session_status := SessionCompleted, endTime := Some now\<rparr>
                             else s))
            (sessions st),
        agentPermissions := AList.delete agentId (agentPermissions st),
        rateLimits :=
          filter (\<lambda>(key, r). take (length (agentId @ '':'')) key \<noteq> agentId @ '':'')
            (rateLimits st)\<rparr>"

definition getActiveSessionId :: "mcp_state \<Rightarrow> string \<Rightarrow> string" where
  "getActiveSessionId st agentId =
     (case filter (\<lambda>s. session_agentId s = agentId \<and> session_status s = SessionActive)
             (map snd (sessions st)) of
        [] \<Rightarrow> ''no-session''
      | s # rest \<Rightarrow> session_id s)"

definition activeSessions :: "mcp_state \<Rightarrow> string \<Rightarrow> nat" where
  \<comment> \<open>the \<open>activeSessions\<close> figure of \<open>getAgentStats\<close>\<close>
  "activeSessions st agentId =
     length (filter (\<lambda>s. session_status s = SessionActive)
               (filter (\<lambda>s. session_agentId s = agentId) (map snd (sessions st))))"

subsection \<open>Tool implementations and dispatch\<close>

definition call_service ::
  "(json list \<Rightarrow> string + json) option \<Rightarrow> json list \<Rightarrow> mcp_error + json" where
  \<comment> \<open>\<open>await service?.method(args)\<close>\<close>
  "call_service svc args =
     (case svc of
        None \<Rightarrow> Inr JUndefined
      | Some f \<Rightarrow> (case f args of Inl msg \<Rightarrow> Inl (ServiceFailure msg) | Inr v \<Rightarrow> Inr v))"

definition executeTradeOrder :: "js_record \<Rightarrow> js_record \<Rightarrow> call_env \<Rightarrow> mcp_error + json" where
  "executeTradeOrder params context env =
     (case call_service (persistentTradingEngine env)
             [js_get context ''agentId'', js_get params ''symbol'', js_get params ''side'',
              js_get params ''amount'', js_or (js_get params ''type'') (JStr ''market''),
              js_get params ''price''] of
        Inl e \<Rightarrow> Inl e
      | Inr order \<Rightarrow>
          Inr (JObj [(''success'', JBool True), (''orderId'', opt_field order ''id''),
                     (''order'', order)]))"

definition analyzeMarketSentiment :: "js_record \<Rightarrow> js_record \<Rightarrow> call_env \<Rightarrow> mcp_error + json" where
  "analyzeMarketSentiment params context env =
     Inr (JObj [(''symbol'', js_get params ''symbol''),
                (''sentiment'', JStr ''Neutral market sentiment (mock data)''),
                (''score'', JNum (1 / 10)),
                (''timestamp'', JNum (of_nat (now_impl env)))])"

definition createTodo :: "js_record \<Rightarrow> js_record \<Rightarrow> call_env \<Rightarrow> mcp_error + json" where
  "createTodo params context env =
     (case call_service (agentTodoService env)
             [js_get context ''agentId'',
              JObj [(''title'', js_get params ''title''),
                    (''description'', js_or (js_get params ''description'') (JStr [])),
                    (''priority'', js_or (js_get params ''priority'') (JStr ''medium'')),
                    (''category'', JStr ''agent-generated''),
                    (''estimatedDuration'', JNum 1800000),
                    (''tags'', JArr [JStr ''mcp-generated''])]] of
        Inl e \<Rightarrow> Inl e
      | Inr todo \<Rightarrow>
          Inr (JObj [(''success'', JBool True), (''todoId'', opt_field todo ''id''),
                     (''todo'', todo)]))"

definition executeTool ::
  "mcp_state \<Rightarrow> mcp_tool \<Rightarrow> js_record \<Rightarrow> js_record \<Rightarrow> call_env \<Rightarrow> (mcp_error + json) \<times> mcp_state" where
  "executeTool st tool params context env =
     (if tool_id tool = ''trading.place_order''
      then (executeTradeOrder params context env,
            st\<lparr>dispatched := dispatched st @ [ExecuteTradeOrder params context]\<rparr>)
      else if tool_id tool = ''analysis.market_sentiment''
      then (analyzeMarketSentiment params context env,
            st\<lparr>dispatched := dispatched st @ [AnalyzeMarketSentiment params context]\<rparr>)
      else if tool_id tool = ''system.create_todo''
      then (createTodo params context env,
            st\<lparr>dispatched := dispatched st @ [CreateTodo params context]\<rparr>)
      else (Inl (ToolNotImplemented (tool_id tool)), st))"

subsection \<open>The audit log and the usage statistics\<close>

definition logCall :: "mcp_state \<Rightarrow> mcp_call_log \<Rightarrow> mcp_state" where
  "logCall st callLog =
     (let logs = callLogs st @ [callLog]
      in st\<lparr>callLogs := (if length logs > 1000 then drop (length logs - 1000) logs else logs)\<rparr>)"

definition updateToolUsage :: "mcp_state \<Rightarrow> string \<Rightarrow> bool \<Rightarrow> int \<Rightarrow> nat \<Rightarrow> mcp_state" where
  "updateToolUsage st toolId succeeded dur now =
     (case map_of (tools st) toolId of
        None \<Rightarrow> st
      | Some tool \<Rightarrow>
          (let u = usage tool;
               n = totalCalls u + 1;
               successCount = of_nat n * successRate u + (if succeeded then 1 else 0);
               rate = successCount / of_nat n;
               totalTime = avgResponseTime u * (of_nat n - 1) + of_int dur;
               avg = totalTime / of_nat n;
               u' = \<lparr>totalCalls = n, lastUsed = now, successRate = rate, avgResponseTime = avg\<rparr>
           in st\<lparr>tools := AList.update toolId (tool\<lparr>usage := u'\<rparr>) (tools st)\<rparr>))"

subsection \<open>callTool\<close>

definition spread_context :: "string \<Rightarrow> js_record option \<Rightarrow> js_record" where
  \<comment> \<open>\<open>{ agentId, ...context }\<close>: the properties of \<open>context\<close> are written over \<open>agentId\<close>\<close>
  "spread_context agentId ctx =
     fold (\<lambda>(k, v). AList.update k v) (case ctx of None \<Rightarrow> [] | Some c \<Rightarrow> c)
       [(''agentId'', JStr agentId)]"

definition resolve_and_execute ::
  "mcp_state \<Rightarrow> string \<Rightarrow> string \<Rightarrow> js_record \<Rightarrow> js_record option \<Rightarrow> call_env
     \<Rightarrow> (mcp_error + json) \<times> mcp_state" where
  \<comment> \<open>steps 1 to 3 in the \<open>try\<close> block of \<open>callTool\<close>\<close>
  "resolve_and_execute st agentId toolId params ctx env =
     (case map_of (agentPermissions st) agentId of
        None \<Rightarrow> (Inl NotRegistered, st)
      | Some perms \<Rightarrow>
          (case map_of (tools st) toolId of
             None \<Rightarrow> (Inl (ToolUnavailable toolId), st)
           | Some tool \<Rightarrow>
               if \<not> enabled tool then (Inl (ToolUnavailable toolId), st)
               else executeTool st tool params (spread_context agentId ctx) env))"

definition callTool ::
  "mcp_state \<Rightarrow> string \<Rightarrow> string \<Rightarrow> js_record \<Rightarrow> js_record option \<Rightarrow> call_env
     \<Rightarrow> (mcp_error + json) \<times> mcp_state" where
  "callTool st agentId toolId params ctx env =
     (let startTime = now_start env;
          callId = ''call_'' @ string_of_nat (now_callId env) @ ''_'' @ random_suffix env;
          user = (case ctx of None \<Rightarrow> JUndefined | Some c \<Rightarrow> js_get c ''userContext'')
      in case resolve_and_execute st agentId toolId params ctx env of
           (Inr resp, st1) \<Rightarrow>
             (let callLog =
                    \<lparr>log_id = callId, log_agentId = agentId, log_toolId = toolId,
                     log_parameters = params, response = resp, success = True, error = None,
                     timestamp = startTime,
                     duration = int (now_logged env) - int startTime,
                     log_context =
                       \<lparr>sessionId = getActiveSessionId st1 agentId, requestId = callId,
                        userContext = user\<rparr>\<rparr>;
                  st2 = logCall st1 callLog;
                  st3 = updateToolUsage st2 toolId True
                          (int (now_usage env) - int startTime) (now_lastUsed env)
              in (Inr resp, st3))
         | (Inl err, st1) \<Rightarrow>
             (let callLog =
                    \<lparr>log_id = callId, log_agentId = agentId, log_toolId = toolId,
                     log_parameters = params, response = JNull, success = False,
                     error = Some (error_toString err),
                     timestamp = startTime,
                     duration = int (now_logged env) - int startTime,
                     log_context =
                       \<lparr>sessionId = getActiveSessionId st1 agentId, requestId = callId,
                        userContext = user\<rparr>\<rparr>;
                  st2 = logCall st1 callLog;
                  st3 = updateToolUsage st2 toolId False
                          (int (now_usage env) - int startTime) (now_lastUsed env)
              in (Inl err, st3)))"

section \<open>Sequences of operations\<close>


text \<open>
  Activations and deactivations as events, with the clock readings each one takes.
\<close>

datatype mcp_event = Activate string nat nat | Deactivate string nat

fun apply_event :: "(string \<Rightarrow> string option) \<Rightarrow> mcp_event \<Rightarrow> mcp_state \<Rightarrow> mcp_state" where
  "apply_event getAgent (Activate agentId now_id now_started) st =
     snd (activateForAgent getAgent st agentId now_id now_started)"
| "apply_event getAgent (Deactivate agentId now) st = deactivateForAgent st agentId now"

text \<open>
  The number of activations of an agent that found the agent and have not been followed by
  a deactivation of it, counted on from \<open>n\<close>.
\<close>

fun open_activations ::
  "(string \<Rightarrow> string option) \<Rightarrow> string \<Rightarrow> mcp_event list \<Rightarrow> nat \<Rightarrow> nat" where
  "open_activations getAgent a [] n = n"
| "open_activations getAgent a (Activate b now_id now_started # es) n =
     open_activations getAgent a es (if b = a \<and> getAgent b \<noteq> None then n + 1 else n)"
| "open_activations getAgent a (Deactivate b now # es) n =
     open_activations getAgent a es (if b = a then 0 else n)"

section \<open>Schema conformance as the specification words it\<close>

text \<open>
  The service has no function that checks parameters against a tool's schema. To state what
  a violation is, the following predicates follow the specification: type, required
  fields, numeric ranges, enum membership.
\<close>

fun has_type :: "param_type \<Rightarrow> json \<Rightarrow> bool" where
  "has_type PString (JStr s) = True"
| "has_type PNumber (JNum x) = True"
| "has_type PBoolean (JBool b) = True"
| "has_type PObject (JObj fs) = True"
| "has_type PArray (JArr xs) = True"
| "has_type t v = False"

definition spec_in_range :: "validation option \<Rightarrow> json \<Rightarrow> bool" where
  "spec_in_range vd v =
     (case vd of
        None \<Rightarrow> True
      | Some r \<Rightarrow>
          (case v of
             JNum x \<Rightarrow>
               (case v_min r of None \<Rightarrow> True | Some lo \<Rightarrow> lo \<le> x)
               \<and> (case v_max r of None \<Rightarrow> True | Some hi \<Rightarrow> x \<le> hi)
           | _ \<Rightarrow> True))"

definition spec_in_enum :: "validation option \<Rightarrow> json \<Rightarrow> bool" where
  "spec_in_enum vd v =
     (case vd of
        None \<Rightarrow> True
      | Some r \<Rightarrow>
          (case v_enum r of
             None \<Rightarrow> True
           | Some es \<Rightarrow> (case v of JStr s \<Rightarrow> s \<in> set es | _ \<Rightarrow> False)))"

definition spec_param_violated :: "mcp_parameter \<Rightarrow> js_record \<Rightarrow> bool" where
  "spec_param_violated p params =
     (case map_of params (p_name p) of
        None \<Rightarrow> p_required p
      | Some v \<Rightarrow>
          \<not> (has_type (p_type p) v \<and> spec_in_range (p_validation p) v
             \<and> spec_in_enum (p_validation p) v))"

definition spec_violates_schema :: "mcp_tool \<Rightarrow> js_record \<Rightarrow> bool" where
  "spec_violates_schema tool params =
     list_ex (\<lambda>p. spec_param_violated p params) (parameters tool)"

section \<open>Example states and inputs\<close>

definition empty_state :: mcp_state where
  \<comment> \<open>the fields of a newly constructed service\<close>
  "empty_state =
     \<lparr>tools = [], agentPermissions = [], callLogs = [], sessions = [], rateLimits = [],
      dispatched = []\<rparr>"

definition initial_state :: mcp_state where
  "initial_state = initializeDefaultTools empty_state"

definition one_agent :: "string \<Rightarrow> string option" where
  \<comment> \<open>a persistence service that knows the agent \<open>agent-1\<close>\<close>
  "one_agent agentId = (if agentId = ''agent-1'' then Some ''agent-1'' else None)"

definition active_state :: mcp_state where
  "active_state = snd (activateForAgent one_agent initial_state ''agent-1'' 1000 1000)"

definition quiet_env :: call_env where
  \<comment> \<open>a call starting at time 2000, with neither service loaded\<close>
  "quiet_env =
     \<lparr>now_start = 2000, now_callId = 2000, random_suffix = ''k3j9x2m1q'',
      persistentTradingEngine = None, agentTodoService = None,
      now_impl = 2001, now_logged = 2003, now_usage = 2003, now_lastUsed = 2003\<rparr>"

definition blocking_permissions :: mcp_agent_permissions where
  \<comment> \<open>a permission set that grants no tool and no category and blocks the sentiment tool\<close>
  "blocking_permissions =
     \<lparr>perm_agentId = ''agent-1'', allowedTools = [], allowedCategories = [],
      restrictions =
        \<lparr>maxCallsPerMinute = 60, maxCallsPerDay = 5000, requireApproval = [],
         blockedTools = [''analysis.market_sentiment'']\<rparr>,
      audit = \<lparr>audit_enabled = True, logLevel = Detailed, retentionDays = 30\<rparr>\<rparr>"

definition blocked_state :: mcp_state where
  "blocked_state = initial_state\<lparr>agentPermissions := [(''agent-1'', blocking_permissions)]\<rparr>"

definition bad_order :: js_record where
  \<comment> \<open>no \<open>symbol\<close>, a \<open>side\<close> outside the enum, a negative \<open>amount\<close>, a \<open>price\<close> that is no number\<close>
  "bad_order =
     [(''side'', JStr ''hold''), (''amount'', JNum (- 5)), (''price'', JStr ''cheap'')]"

definition demo_agent :: agent where
  "demo_agent =
     \<lparr>agent_id = ''agent-1'', agent_name = ''Momentum'', agent_type = ''momentum'',
      status = AgentStopped,
      config = \<lparr>decisionInterval = Some 30000, maxRiskPerTrade = Some double_0_05,
                symbols = [''BTC/USD'']\<rparr>,
      performance = \<lparr>totalPnL = 0, winRate = 0, trades = 0, successfulDecisions = 0,
                     totalDecisions = 0\<rparr>\<rparr>"

definition empty_loop :: loop_state where
  "empty_loop = \<lparr>activeLoops = [], agentStates = [], statusReports = []\<rparr>"

definition load_demo :: "string \<Rightarrow> agent option" where
  "load_demo agentId = (if agentId = ''agent-1'' then Some demo_agent else None)"

definition started_loop :: loop_state where
  "started_loop = snd (startAgent load_demo empty_loop ''agent-1'')"

definition provider_down :: cycle_input where
  \<comment> \<open>a cycle in which the decision provider throws\<close>
  "provider_down =
     \<lparr>cy_portfolio = \<lparr>totalValue = double_of_int 10000, cash = double_of_int 5000,
                       pnl = double_of_int 0\<rparr>,
      cy_decision = None,
      cy_execute_throws = False, cy_memory_throws = False\<rparr>"


section \<open>The decision validator\<close>

subsection \<open>Double arithmetic at the inputs used below\<close>

text \<open>
  The constant for the literal \<open>0.05\<close> has a 53-bit significand and lies within half a
  unit in the last place of 1/20.
\<close>

lemma double_0_05_nearest:
  "dval double_0_05 = 7205759403792794 / 2 ^ 57"
  "(2::int) ^ 52 \<le> 7205759403792794" "(7205759403792794::int) < 2 ^ 53"
  "\<bar>dval double_0_05 - 5 / 100\<bar> < 1 / 2 ^ 58"
  by (simp_all add: dval_def double_0_05_def)

lemma limit_is_50: "dval (dmul (Fin 1000 0) double_0_05) = 50"
  by code_simp

lemma cost_is_60: "dval (dmul (Fin 2 0) (Fin 30 0)) = 60"
  by code_simp

lemma cost_60_over_limit: "dgt (dmul (Fin 2 0) (Fin 30 0)) (dmul (Fin 1000 0) double_0_05)"
  by code_simp

lemma cost_40_within_limit: "\<not> dgt (dmul (Fin 2 0) (Fin 20 0)) (dmul (Fin 1000 0) double_0_05)"
  by code_simp

text \<open>
  Rounding decides at the boundary. With the doubles nearest to 0.1 and 0.3, a buy of
  3 at 0.1 against cash 1 and a risk share of 0.3 is rejected, the product 3 * 0.1 being
  rounded up; with the doubles nearest to 0.1 and 0.01, a buy of 1 at 0.1 against cash 10
  and a risk share of 0.01 is accepted, although the exact value of the cost exceeds the
  exact value of the limit.
\<close>

lemma product_3_by_0_1:
  "dmul (Fin 3 0) (Fin 7205759403792794 (- 56)) = Fin 5404319552844596 (- 54)"
  by code_simp

lemma product_10_by_0_01:
  "dmul (Fin 10 0) (Fin 5764607523034235 (- 59)) = Fin 7205759403792794 (- 56)"
  by code_simp

lemma validateDecision_rounds_cost_up:
  "\<not> validateDecision
       \<lparr>action = Some ''buy'', reasoning = Some ''momentum'', quantity = Some (Fin 3 0),
        price = Some (Fin 7205759403792794 (- 56)), symbol = None\<rparr>
       \<lparr>totalValue = Fin 1 0, cash = Fin 1 0, pnl = Fin 0 0\<rparr>
       \<lparr>decisionInterval = None, maxRiskPerTrade = Some (Fin 5404319552844595 (- 54)),
        symbols = []\<rparr>
   \<and> (3::rat) * (1 / 10) = 1 * (3 / 10)"
proof -
  have "dgt (dmul (Fin 3 0) (Fin 7205759403792794 (- 56)))
            (dmul (Fin 1 0) (Fin 5404319552844595 (- 54)))"
    by code_simp
  then show ?thesis
    by (simp add: validateDecision_def truthy_str_def truthy_num_def num_or_def
        del: dmul.simps dgt.simps)
qed

lemma validateDecision_rounds_limit_up:
  "validateDecision
       \<lparr>action = Some ''buy'', reasoning = Some ''momentum'', quantity = Some (Fin 1 0),
        price = Some (Fin 7205759403792794 (- 56)), symbol = None\<rparr>
       \<lparr>totalValue = Fin 10 0, cash = Fin 10 0, pnl = Fin 0 0\<rparr>
       \<lparr>decisionInterval = None, maxRiskPerTrade = Some (Fin 5764607523034235 (- 59)),
        symbols = []\<rparr>
   \<and> (1::rat) * (7205759403792794 / 2 ^ 56) > 10 * (5764607523034235 / 2 ^ 59)"
proof -
  have "\<not> dgt (dmul (Fin 1 0) (Fin 7205759403792794 (- 56)))
              (dmul (Fin 10 0) (Fin 5764607523034235 (- 59)))"
    by code_simp
  then show ?thesis
    by (simp add: validateDecision_def truthy_str_def truthy_num_def num_or_def
        del: dmul.simps dgt.simps)
qed

text \<open>
  The product of the largest finite double and 2 overflows; half of the smallest positive
  double rounds to zero.
\<close>

lemma overflow_example:
  "dmul (Fin (2 ^ 53 - 1) 971) (Fin 2 0) = Inf False"
  by code_simp

lemma underflow_example:
  "dmul (Fin 1 (- 1074)) (Fin 1 (- 1)) = Fin 0 (- 1074)"
  by code_simp

subsection \<open>Which decisions are rejected\<close>

text \<open>
  C6, as stated, fails: a sell whose cost of 60 exceeds the limit of 1000 * 0.05 = 50, with
  action, rationale and an allowed symbol, is accepted.
\<close>

theorem validateDecision_accepts_costly_sell:
  "validateDecision
     \<lparr>action = Some ''sell'', reasoning = Some ''take profit'', quantity = Some (Fin 2 0),
      price = Some (Fin 30 0), symbol = Some ''BTC/USD''\<rparr>
     \<lparr>totalValue = Fin 1000 0, cash = Fin 1000 0, pnl = Fin 0 0\<rparr>
     \<lparr>decisionInterval = Some 30000, maxRiskPerTrade = Some double_0_05,
      symbols = [''BTC/USD'']\<rparr>
   \<and> dgt (dmul (Fin 2 0) (Fin 30 0)) (dmul (Fin 1000 0) double_0_05)
   \<and> dval (dmul (Fin 2 0) (Fin 30 0)) = 60
   \<and> dval (dmul (Fin 1000 0) double_0_05) = 50"
  by (simp add: validateDecision_def truthy_str_def truthy_num_def num_or_def
      cost_60_over_limit cost_is_60 limit_is_50 del: dmul.simps dgt.simps)

text \<open>
  C6 (amended): the validator rejects a decision exactly when it lacks an action or a
  rationale, or it is a buy with a non-zero quantity whose cost exceeds the limit, or it
  names a symbol outside the allowed set. Cost and limit are the double products quantity
  times price (a missing or zero price counting as 0) and cash times maxRiskPerTrade (0.05
  when that is unset or 0), each rounded to the nearest double, and compared with \<open>>\<close>.
\<close>

theorem validateDecision_rejects_iff:
  "validateDecision d pf cfg \<longleftrightarrow>
     \<not> (\<not> truthy_str (action d) \<or> \<not> truthy_str (reasoning d)
        \<or> (action d = Some ''buy'' \<and> truthy_num (quantity d)
            \<and> dgt (dmul (num_or (quantity d) (Fin 0 0)) (num_or (price d) (Fin 0 0)))
                   (dmul (cash pf) (num_or (maxRiskPerTrade cfg) double_0_05)))
        \<or> (\<exists>s. symbol d = Some s \<and> s \<noteq> [] \<and> s \<notin> set (symbols cfg)))"
  by (auto simp: validateDecision_def truthy_str_def Let_def split: option.splits)

text \<open>
  With cash 1000 and maxRiskPerTrade 0.05, a buy of cost 60 is rejected and a buy of cost
  40 is accepted.
\<close>

theorem validateDecision_rejects_iff_witness:
  "\<not> validateDecision
       \<lparr>action = Some ''buy'', reasoning = Some ''momentum'', quantity = Some (Fin 2 0),
        price = Some (Fin 30 0), symbol = Some ''BTC/USD''\<rparr>
       \<lparr>totalValue = Fin 1000 0, cash = Fin 1000 0, pnl = Fin 0 0\<rparr>
       \<lparr>decisionInterval = Some 30000, maxRiskPerTrade = Some double_0_05,
        symbols = [''BTC/USD'']\<rparr>
   \<and> validateDecision
       \<lparr>action = Some ''buy'', reasoning = Some ''momentum'', quantity = Some (Fin 2 0),
        price = Some (Fin 20 0), symbol = Some ''BTC/USD''\<rparr>
       \<lparr>totalValue = Fin 1000 0, cash = Fin 1000 0, pnl = Fin 0 0\<rparr>
       \<lparr>decisionInterval = Some 30000, maxRiskPerTrade = Some double_0_05,
        symbols = [''BTC/USD'']\<rparr>"
  using validateDecision_rejects_iff
    [of "\<lparr>action = Some ''buy'', reasoning = Some ''momentum'', quantity = Some (Fin 2 0),
          price = Some (Fin 30 0), symbol = Some ''BTC/USD''\<rparr>"
        "\<lparr>totalValue = Fin 1000 0, cash = Fin 1000 0, pnl = Fin 0 0\<rparr>"
        "\<lparr>decisionInterval = Some 30000, maxRiskPerTrade = Some double_0_05,
          symbols = [''BTC/USD'']\<rparr>"]
    validateDecision_rejects_iff
    [of "\<lparr>action = Some ''buy'', reasoning = Some ''momentum'', quantity = Some (Fin 2 0),
          price = Some (Fin 20 0), symbol = Some ''BTC/USD''\<rparr>"
        "\<lparr>totalValue = Fin 1000 0, cash = Fin 1000 0, pnl = Fin 0 0\<rparr>"
        "\<lparr>decisionInterval = Some 30000, maxRiskPerTrade = Some double_0_05,
          symbols = [''BTC/USD'']\<rparr>"]
  by (simp add: truthy_str_def truthy_num_def num_or_def cost_60_over_limit
      cost_40_within_limit del: dmul.simps dgt.simps)

text \<open>
  C10: the risk limit is checked only for a buy that carries a non-zero quantity. A decision
  with an action and a rationale that is not such a buy, and whose symbol is absent, empty
  or in the allowed set, passes validation whatever its quantity, its price, the cash and
  maxRiskPerTrade are.
\<close>

theorem validateDecision_risk_only_for_buy:
  assumes "truthy_str (action d)" and "truthy_str (reasoning d)"
    and "action d \<noteq> Some ''buy'' \<or> \<not> truthy_num (quantity d)"
    and "symbol d = None \<or> symbol d = Some [] \<or> (\<exists>s. symbol d = Some s \<and> s \<in> set (symbols cfg))"
  shows "validateDecision d pf cfg"
  using assms by (auto simp: validateDecision_def truthy_str_def split: option.splits)

text \<open>
  A sell of 1000 units at 45000 against a limit of 50 passes.
\<close>

theorem validateDecision_risk_only_for_buy_witness:
  "validateDecision
     \<lparr>action = Some ''sell'', reasoning = Some ''take profit'', quantity = Some (Fin 1000 0),
      price = Some (Fin 45000 0), symbol = Some ''BTC/USD''\<rparr>
     \<lparr>totalValue = Fin 1000 0, cash = Fin 1000 0, pnl = Fin 0 0\<rparr>
     \<lparr>decisionInterval = Some 30000, maxRiskPerTrade = Some double_0_05,
      symbols = [''BTC/USD'']\<rparr>
   \<and> dgt (dmul (Fin 1000 0) (Fin 45000 0)) (dmul (Fin 1000 0) double_0_05)"
proof -
  have "validateDecision
     \<lparr>action = Some ''sell'', reasoning = Some ''take profit'', quantity = Some (Fin 1000 0),
      price = Some (Fin 45000 0), symbol = Some ''BTC/USD''\<rparr>
     \<lparr>totalValue = Fin 1000 0, cash = Fin 1000 0, pnl = Fin 0 0\<rparr>
     \<lparr>decisionInterval = Some 30000, maxRiskPerTrade = Some double_0_05,
      symbols = [''BTC/USD'']\<rparr>"
    by (rule validateDecision_risk_only_for_buy) (simp_all add: truthy_str_def)
  moreover have "dgt (dmul (Fin 1000 0) (Fin 45000 0)) (dmul (Fin 1000 0) double_0_05)"
    by code_simp
  ultimately show ?thesis by (simp del: dmul.simps dgt.simps)
qed

section \<open>The scheduler\<close>

subsection \<open>Bulk start\<close>




lemma load_demo_simps:
  "load_demo ''agent-0'' = None" "load_demo ''agent-1'' = Some demo_agent"
  by (simp_all add: load_demo_def)

lemma started_loop_eq:
  "started_loop =
     \<lparr>activeLoops = [(''agent-1'', \<lparr>interval_ms = 30000, captured = demo_agent\<rparr>)],
      agentStates = [(''agent-1'', demo_agent\<lparr>status := AgentActive\<rparr>)],
      statusReports = [(''agent-1'', AgentStopped), (''agent-1'', AgentActive)]\<rparr>"
  by (simp add: started_loop_def startAgent_def load_demo_simps Let_def stopAgent_def
      clearLoop_def setStatus_def updateAgentStatus_def empty_loop_def demo_agent_def)




subsection \<open>Failing cycles\<close>

lemma executeDecisionCycle_fails:
  "cycle_fails agent inp \<Longrightarrow>
   executeDecisionCycle st agent inp = handleDecisionError st (agent_id agent)"
  by (auto simp: cycle_fails_def executeDecisionCycle_def split: option.splits if_splits)

lemma handleDecisionError_below_threshold:
  assumes "map_of (agentStates st) a = Some ag"
    and "totalDecisions (performance ag) - successfulDecisions (performance ag) \<le> 10"
  shows "handleDecisionError st a =
           st\<lparr>agentStates := AList.update a (ag\<lparr>status := AgentError\<rparr>) (agentStates st),
              statusReports := statusReports st @ [(a, AgentError)]\<rparr>"
  using assms by (simp add: handleDecisionError_def Let_def updateAgentStatus_def)

text \<open>
  Once \<open>totalDecisions - successfulDecisions\<close> exceeds 10, a failing cycle stops the
  agent; \<open>stopAgent\<close> then overwrites the status \<open>error\<close> with \<open>stopped\<close>.
\<close>

lemma handleDecisionError_above_threshold:
  assumes "map_of (agentStates st) a = Some ag"
    and "totalDecisions (performance ag) - successfulDecisions (performance ag) > 10"
  shows "map_of (activeLoops (handleDecisionError st a)) a = None
       \<and> map_of (agentStates (handleDecisionError st a)) a = Some (ag\<lparr>status := AgentStopped\<rparr>)"
  using assms
  by (simp add: handleDecisionError_def Let_def updateAgentStatus_def stopAgent_def
      clearLoop_def setStatus_def update_conv' delete_conv' split: option.splits)

lemma failing_ticks:
  assumes "map_of (activeLoops st) a = Some t" and "agent_id (captured t) = a"
    and "map_of (agentStates st) a = Some ag"
    and "totalDecisions (performance ag) - successfulDecisions (performance ag) \<le> 10"
    and "list_all (cycle_fails (captured t)) inps"
  shows "map_of (activeLoops (fold (\<lambda>inp s. timer_tick s a inp) inps st)) a = Some t
       \<and> map_of (agentStates (fold (\<lambda>inp s. timer_tick s a inp) inps st)) a =
           Some (if inps = [] then ag else ag\<lparr>status := AgentError\<rparr>)"
  using assms
proof (induction inps arbitrary: st ag)
  case Nil
  then show ?case by simp
next
  case (Cons inp inps)
  let ?st1 = "timer_tick st a inp"
  have f: "cycle_fails (captured t) inp" using Cons.prems(5) by simp
  have st1: "?st1 = st\<lparr>agentStates := AList.update a (ag\<lparr>status := AgentError\<rparr>) (agentStates st),
              statusReports := statusReports st @ [(a, AgentError)]\<rparr>"
    using Cons.prems(1,2) executeDecisionCycle_fails [OF f, of st]
      handleDecisionError_below_threshold [OF Cons.prems(3,4)]
    by (simp add: timer_tick_def)
  have a1: "map_of (activeLoops ?st1) a = Some t" using Cons.prems(1) by (simp add: st1)
  have a3: "map_of (agentStates ?st1) a = Some (ag\<lparr>status := AgentError\<rparr>)"
    by (simp add: st1 update_conv')
  have a4: "totalDecisions (performance (ag\<lparr>status := AgentError\<rparr>))
            - successfulDecisions (performance (ag\<lparr>status := AgentError\<rparr>)) \<le> 10"
    using Cons.prems(4) by simp
  have a5: "list_all (cycle_fails (captured t)) inps" using Cons.prems(5) by simp
  from Cons.IH [OF a1 Cons.prems(2) a3 a4 a5] show ?case by simp
qed

text \<open>
  C7, on the code: a failing cycle sets the status to \<open>error\<close> at once and leaves
  \<open>totalDecisions\<close> and \<open>successfulDecisions\<close> as they are, so consecutive failures never
  bring the error count over the threshold. For an agent with an armed timer whose error
  count is at most 10, after any positive number of consecutive failing cycles the timer
  is still armed, the status is \<open>error\<close> and the counters are unchanged.
\<close>

theorem consecutive_failures_never_stop:
  assumes "map_of (activeLoops st) a = Some t" and "agent_id (captured t) = a"
    and "map_of (agentStates st) a = Some ag"
    and "totalDecisions (performance ag) - successfulDecisions (performance ag) \<le> 10"
    and "list_all (cycle_fails (captured t)) inps" and "inps \<noteq> []"
  shows "map_of (activeLoops (fold (\<lambda>inp s. timer_tick s a inp) inps st)) a = Some t
       \<and> map_of (agentStates (fold (\<lambda>inp s. timer_tick s a inp) inps st)) a =
           Some (ag\<lparr>status := AgentError\<rparr>)"
  using failing_ticks [OF assms(1-5)] assms(6) by simp

text \<open>
  A newly started agent with counters 0 and 0, after 11 consecutive cycles in which the
  decision provider throws: the timer is still armed.
\<close>

theorem consecutive_failures_never_stop_witness:
  "map_of (activeLoops (fold (\<lambda>inp s. timer_tick s ''agent-1'' inp)
                          (replicate 11 provider_down) started_loop)) ''agent-1''
     = Some \<lparr>interval_ms = 30000, captured = demo_agent\<rparr>
   \<and> map_of (agentStates (fold (\<lambda>inp s. timer_tick s ''agent-1'' inp)
                             (replicate 11 provider_down) started_loop)) ''agent-1''
     = Some (demo_agent\<lparr>status := AgentError\<rparr>)
   \<and> totalDecisions (performance demo_agent) - successfulDecisions (performance demo_agent) = 0"
proof -
  have a: "map_of (activeLoops started_loop) ''agent-1''
             = Some \<lparr>interval_ms = 30000, captured = demo_agent\<rparr>"
    by (simp add: started_loop_eq)
  have b: "agent_id (captured \<lparr>interval_ms = 30000, captured = demo_agent\<rparr>) = ''agent-1''"
    by (simp add: demo_agent_def)
  have c: "map_of (agentStates started_loop) ''agent-1'' = Some (demo_agent\<lparr>status := AgentActive\<rparr>)"
    by (simp add: started_loop_eq)
  have d: "totalDecisions (performance (demo_agent\<lparr>status := AgentActive\<rparr>))
           - successfulDecisions (performance (demo_agent\<lparr>status := AgentActive\<rparr>)) \<le> 10"
    by (simp add: demo_agent_def)
  have e: "list_all (cycle_fails (captured \<lparr>interval_ms = 30000, captured = demo_agent\<rparr>))
             (replicate 11 provider_down)"
    by (simp add: list_all_iff cycle_fails_def provider_down_def)
  have f: "replicate 11 provider_down \<noteq> []" by simp
  show ?thesis
    using consecutive_failures_never_stop [OF a b c d e f]
    by (simp add: demo_agent_def)
qed

section \<open>The gateway\<close>

subsection \<open>What each step of callTool changes\<close>

lemma executeTool_frame:
  "tools (snd (executeTool st tool ps c env)) = tools st"
  "agentPermissions (snd (executeTool st tool ps c env)) = agentPermissions st"
  "callLogs (snd (executeTool st tool ps c env)) = callLogs st"
  "sessions (snd (executeTool st tool ps c env)) = sessions st"
  "rateLimits (snd (executeTool st tool ps c env)) = rateLimits st"
  by (simp_all add: executeTool_def)

lemma resolve_and_execute_frame:
  "tools (snd (resolve_and_execute st a t ps ctx env)) = tools st"
  "agentPermissions (snd (resolve_and_execute st a t ps ctx env)) = agentPermissions st"
  "callLogs (snd (resolve_and_execute st a t ps ctx env)) = callLogs st"
  "sessions (snd (resolve_and_execute st a t ps ctx env)) = sessions st"
  "rateLimits (snd (resolve_and_execute st a t ps ctx env)) = rateLimits st"
  by (simp_all add: resolve_and_execute_def executeTool_frame split: option.splits)

lemma logCall_frame:
  "tools (logCall st l) = tools st"
  "agentPermissions (logCall st l) = agentPermissions st"
  "sessions (logCall st l) = sessions st"
  "rateLimits (logCall st l) = rateLimits st"
  "dispatched (logCall st l) = dispatched st"
  by (simp_all add: logCall_def Let_def)

lemma logCall_logs:
  "callLogs (logCall st l) = drop (length (callLogs st) + 1 - 1000) (callLogs st @ [l])"
  by (simp add: logCall_def Let_def)

lemma updateToolUsage_frame:
  "agentPermissions (updateToolUsage st t b d n) = agentPermissions st"
  "callLogs (updateToolUsage st t b d n) = callLogs st"
  "sessions (updateToolUsage st t b d n) = sessions st"
  "rateLimits (updateToolUsage st t b d n) = rateLimits st"
  "dispatched (updateToolUsage st t b d n) = dispatched st"
  by (simp_all add: updateToolUsage_def Let_def split: option.splits)

lemma updateToolUsage_other:
  "k \<noteq> t \<Longrightarrow> map_of (tools (updateToolUsage st t b d n)) k = map_of (tools st) k"
  by (simp add: updateToolUsage_def Let_def update_conv' split: option.splits)

lemma updateToolUsage_missing:
  "map_of (tools st) t = None \<Longrightarrow> updateToolUsage st t b d n = st"
  by (simp add: updateToolUsage_def)

lemma updateToolUsage_target:
  "map_of (tools st) t = Some tool \<Longrightarrow>
   \<exists>tool'. map_of (tools (updateToolUsage st t b d n)) t = Some tool'
       \<and> totalCalls (usage tool') = totalCalls (usage tool) + 1
       \<and> enabled tool' = enabled tool \<and> tool_id tool' = tool_id tool
       \<and> parameters tool' = parameters tool \<and> category tool' = category tool"
  by (simp add: updateToolUsage_def Let_def update_conv')

lemma callTool_unfold:
  "\<exists>l. snd (callTool st a t ps ctx env) =
           updateToolUsage (logCall (snd (resolve_and_execute st a t ps ctx env)) l) t
             (\<not> isl (fst (resolve_and_execute st a t ps ctx env)))
             (int (now_usage env) - int (now_start env)) (now_lastUsed env)
       \<and> log_agentId l = a \<and> log_toolId l = t \<and> log_parameters l = ps
       \<and> success l = (\<not> isl (fst (resolve_and_execute st a t ps ctx env)))"
proof (cases "resolve_and_execute st a t ps ctx env")
  case (Pair outcome st1)
  show ?thesis
  proof (cases outcome)
    case (Inl err)
    with Pair show ?thesis
      apply (simp add: callTool_def Let_def)
      apply (rule exI, rule conjI, rule refl)
      apply simp
      done
  next
    case (Inr resp)
    with Pair show ?thesis
      apply (simp add: callTool_def Let_def)
      apply (rule exI, rule conjI, rule refl)
      apply simp
      done
  qed
qed

lemma callTool_result:
  "fst (callTool st a t ps ctx env) = fst (resolve_and_execute st a t ps ctx env)"
  by (cases "resolve_and_execute st a t ps ctx env"; cases "fst (resolve_and_execute st a t ps ctx env)")
     (auto simp: callTool_def Let_def)

lemma resolve_and_execute_enabled:
  "map_of (agentPermissions st) a = Some perms \<Longrightarrow> map_of (tools st) t = Some tool \<Longrightarrow>
   enabled tool \<Longrightarrow>
   resolve_and_execute st a t ps ctx env = executeTool st tool ps (spread_context a ctx) env"
  by (simp add: resolve_and_execute_def)


lemma executeTool_dispatched:
  "tool_id tool \<in> {''trading.place_order'', ''analysis.market_sentiment'', ''system.create_todo''}
   \<Longrightarrow> length (dispatched (snd (executeTool st tool ps c env))) = length (dispatched st) + 1"
  by (auto simp: executeTool_def)

lemma callTool_dispatched:
  "dispatched (snd (callTool st a t ps ctx env)) =
   dispatched (snd (resolve_and_execute st a t ps ctx env))"
  using callTool_unfold [of st a t ps ctx env]
  by (auto simp: updateToolUsage_frame logCall_frame)

lemma callTool_frame:
  "agentPermissions (snd (callTool st a t ps ctx env)) = agentPermissions st"
  "sessions (snd (callTool st a t ps ctx env)) = sessions st"
  "rateLimits (snd (callTool st a t ps ctx env)) = rateLimits st"
  using callTool_unfold [of st a t ps ctx env]
  by (auto simp: updateToolUsage_frame logCall_frame resolve_and_execute_frame)

lemma callTool_tools_other:
  "k \<noteq> t \<Longrightarrow> map_of (tools (snd (callTool st a t ps ctx env))) k = map_of (tools st) k"
  using callTool_unfold [of st a t ps ctx env]
  by (auto simp: updateToolUsage_other logCall_frame resolve_and_execute_frame)

lemma callTool_tools_target:
  assumes "map_of (tools st) t = Some tool"
  shows "\<exists>tool'. map_of (tools (snd (callTool st a t ps ctx env))) t = Some tool'
       \<and> totalCalls (usage tool') = totalCalls (usage tool) + 1
       \<and> enabled tool' = enabled tool \<and> tool_id tool' = tool_id tool
       \<and> parameters tool' = parameters tool \<and> category tool' = category tool"
proof -
  obtain l where l: "snd (callTool st a t ps ctx env) =
           updateToolUsage (logCall (snd (resolve_and_execute st a t ps ctx env)) l) t
             (\<not> isl (fst (resolve_and_execute st a t ps ctx env)))
             (int (now_usage env) - int (now_start env)) (now_lastUsed env)"
    using callTool_unfold [of st a t ps ctx env] by blast
  have "map_of (tools (logCall (snd (resolve_and_execute st a t ps ctx env)) l)) t = Some tool"
    using assms by (simp add: logCall_frame resolve_and_execute_frame)
  from updateToolUsage_target [OF this] show ?thesis
    unfolding l by simp
qed

lemma callTool_tools_missing:
  assumes "map_of (tools st) t = None"
  shows "tools (snd (callTool st a t ps ctx env)) = tools st"
proof -
  obtain l where l: "snd (callTool st a t ps ctx env) =
           updateToolUsage (logCall (snd (resolve_and_execute st a t ps ctx env)) l) t
             (\<not> isl (fst (resolve_and_execute st a t ps ctx env)))
             (int (now_usage env) - int (now_start env)) (now_lastUsed env)"
    using callTool_unfold [of st a t ps ctx env] by blast
  have "map_of (tools (logCall (snd (resolve_and_execute st a t ps ctx env)) l)) t = None"
    using assms by (simp add: logCall_frame resolve_and_execute_frame)
  from updateToolUsage_missing [OF this] show ?thesis
    unfolding l by (simp add: logCall_frame resolve_and_execute_frame)
qed

lemma callTool_logs:
  "\<exists>l. log_agentId l = a \<and> log_toolId l = t \<and> log_parameters l = ps
       \<and> success l = (\<not> isl (fst (callTool st a t ps ctx env)))
       \<and> callLogs (snd (callTool st a t ps ctx env)) =
           drop (length (callLogs st) + 1 - 1000) (callLogs st @ [l])"
proof -
  obtain l where l: "snd (callTool st a t ps ctx env) =
           updateToolUsage (logCall (snd (resolve_and_execute st a t ps ctx env)) l) t
             (\<not> isl (fst (resolve_and_execute st a t ps ctx env)))
             (int (now_usage env) - int (now_start env)) (now_lastUsed env)"
     and p: "log_agentId l = a" "log_toolId l = t" "log_parameters l = ps"
        "success l = (\<not> isl (fst (resolve_and_execute st a t ps ctx env)))"
    using callTool_unfold [of st a t ps ctx env] by blast
  have "callLogs (snd (callTool st a t ps ctx env)) =
           drop (length (callLogs st) + 1 - 1000) (callLogs st @ [l])"
    unfolding l by (simp add: updateToolUsage_frame logCall_logs resolve_and_execute_frame)
  with p show ?thesis by (auto simp: callTool_result)
qed

subsection \<open>The example states\<close>

lemma string_of_nat_1000: "string_of_nat 1000 = ''1000''"
  by (simp add: string_of_nat.simps digit_char_def)

lemma string_of_nat_2000: "string_of_nat 2000 = ''2000''"
  by (simp add: string_of_nat.simps digit_char_def)

lemma initial_tools:
  "tools initial_state =
     [(''trading.place_order'', place_order_tool),
      (''analysis.market_sentiment'', market_sentiment_tool),
      (''system.create_todo'', create_todo_tool)]"
  by (simp add: initial_state_def initializeDefaultTools_def empty_state_def)

lemma active_state_fields:
  "tools active_state = tools initial_state"
  "agentPermissions active_state = [(''agent-1'', createAgentPermissions initial_state ''agent-1'')]"
  "sessions active_state = [(''session_agent-1_1000'', createSession ''agent-1'' 1000 1000)]"
  "callLogs active_state = []"
  "dispatched active_state = []"
  "rateLimits active_state = []"
  by (simp_all add: active_state_def activateForAgent_def one_agent_def Let_def
      initial_state_def initializeDefaultTools_def empty_state_def createSession_def
      string_of_nat_1000)

lemma blocked_state_fields:
  "tools blocked_state = tools initial_state"
  "agentPermissions blocked_state = [(''agent-1'', blocking_permissions)]"
  "dispatched blocked_state = []"
  by (simp_all add: blocked_state_def initial_state_def initializeDefaultTools_def empty_state_def)

lemma tool_ids:
  "tool_id place_order_tool = ''trading.place_order''"
  "tool_id market_sentiment_tool = ''analysis.market_sentiment''"
  "tool_id create_todo_tool = ''system.create_todo''"
  "enabled place_order_tool" "enabled market_sentiment_tool" "enabled create_todo_tool"
  by (simp_all add: place_order_tool_def market_sentiment_tool_def create_todo_tool_def)

lemma sentiment_result:
  "fst (executeTool st market_sentiment_tool ps c env) = analyzeMarketSentiment ps c env"
  "dispatched (snd (executeTool st market_sentiment_tool ps c env)) =
     dispatched st @ [AnalyzeMarketSentiment ps c]"
  by (simp_all add: executeTool_def tool_ids)

lemma place_order_result:
  "fst (executeTool st place_order_tool ps c env) = executeTradeOrder ps c env"
  "dispatched (snd (executeTool st place_order_tool ps c env)) =
     dispatched st @ [ExecuteTradeOrder ps c]"
  by (simp_all add: executeTool_def tool_ids)


lemma spread_context_None: "spread_context a None = [(''agentId'', JStr a)]"
  by (simp add: spread_context_def)

subsection \<open>Side effects of a call\<close>

text \<open>
  C5, as stated, fails: after a successful call by an agent with one active session, the
  counters of that session are still 0.
\<close>

theorem callTool_leaves_session_counters:
  "fst (callTool active_state ''agent-1'' ''analysis.market_sentiment''
          [(''symbol'', JStr ''BTC/USD'')] None quiet_env) =
     Inr (JObj [(''symbol'', JStr ''BTC/USD''),
                (''sentiment'', JStr ''Neutral market sentiment (mock data)''),
                (''score'', JNum (1 / 10)), (''timestamp'', JNum 2001)])
   \<and> sessions (snd (callTool active_state ''agent-1'' ''analysis.market_sentiment''
          [(''symbol'', JStr ''BTC/USD'')] None quiet_env)) =
     [(''session_agent-1_1000'',
       \<lparr>session_id = ''session_agent-1_1000'', session_agentId = ''agent-1'',
        startTime = 1000, endTime = None, session_totalCalls = 0, successfulCalls = 0,
        failedCalls = 0, session_tools = [], session_status = SessionActive\<rparr>)]"
proof -
  have "resolve_and_execute active_state ''agent-1'' ''analysis.market_sentiment''
          [(''symbol'', JStr ''BTC/USD'')] None quiet_env
        = executeTool active_state market_sentiment_tool [(''symbol'', JStr ''BTC/USD'')]
            (spread_context ''agent-1'' None) quiet_env"
    by (rule resolve_and_execute_enabled)
       (simp_all add: active_state_fields initial_tools tool_ids)
  then show ?thesis
    by (simp add: callTool_result callTool_frame sentiment_result analyzeMarketSentiment_def
        js_get_def quiet_env_def active_state_fields createSession_def string_of_nat_1000)
qed

text \<open>
  C5 (amended): every call of \<open>callTool\<close>, whether it succeeds or fails, appends exactly
  one call record to the audit log (the oldest records are dropped beyond 1000 entries),
  increments \<open>usage.totalCalls\<close> of the target tool by exactly 1 when the tool is
  registered, changes no other tool, and leaves every session as it is.
\<close>

theorem callTool_side_effects:
  "(\<exists>l. log_agentId l = agentId \<and> log_toolId l = toolId
        \<and> success l = (\<not> isl (fst (callTool st agentId toolId params ctx env)))
        \<and> callLogs (snd (callTool st agentId toolId params ctx env)) =
            drop (length (callLogs st) + 1 - 1000) (callLogs st @ [l]))
   \<and> (\<forall>tool. map_of (tools st) toolId = Some tool \<longrightarrow>
        (\<exists>tool'. map_of (tools (snd (callTool st agentId toolId params ctx env))) toolId = Some tool'
            \<and> totalCalls (usage tool') = totalCalls (usage tool) + 1))
   \<and> (\<forall>k. k \<noteq> toolId \<longrightarrow>
        map_of (tools (snd (callTool st agentId toolId params ctx env))) k = map_of (tools st) k)
   \<and> sessions (snd (callTool st agentId toolId params ctx env)) = sessions st"
proof (intro conjI allI impI)
  show "\<exists>l. log_agentId l = agentId \<and> log_toolId l = toolId
        \<and> success l = (\<not> isl (fst (callTool st agentId toolId params ctx env)))
        \<and> callLogs (snd (callTool st agentId toolId params ctx env)) =
            drop (length (callLogs st) + 1 - 1000) (callLogs st @ [l])"
    using callTool_logs [of agentId toolId params st ctx env] by blast
next
  fix tool assume "map_of (tools st) toolId = Some tool"
  from callTool_tools_target [OF this, of agentId params ctx env]
  show "\<exists>tool'. map_of (tools (snd (callTool st agentId toolId params ctx env))) toolId = Some tool'
            \<and> totalCalls (usage tool') = totalCalls (usage tool) + 1"
    by blast
next
  fix k :: string assume "k \<noteq> toolId"
  then show "map_of (tools (snd (callTool st agentId toolId params ctx env))) k = map_of (tools st) k"
    by (rule callTool_tools_other)
next
  show "sessions (snd (callTool st agentId toolId params ctx env)) = sessions st"
    by (rule callTool_frame)
qed

text \<open>
  One call of the sentiment tool in the example state.
\<close>

theorem callTool_side_effects_witness:
  "map_of (tools active_state) ''analysis.market_sentiment'' = Some market_sentiment_tool
   \<and> totalCalls (usage market_sentiment_tool) = 0
   \<and> (\<exists>tool'. map_of (tools (snd (callTool active_state ''agent-1'' ''analysis.market_sentiment''
                    [(''symbol'', JStr ''BTC/USD'')] None quiet_env)))
                 ''analysis.market_sentiment'' = Some tool'
              \<and> totalCalls (usage tool') = 1)
   \<and> map_of (tools (snd (callTool active_state ''agent-1'' ''analysis.market_sentiment''
                [(''symbol'', JStr ''BTC/USD'')] None quiet_env))) ''trading.place_order''
       = Some place_order_tool
   \<and> length (callLogs (snd (callTool active_state ''agent-1'' ''analysis.market_sentiment''
                [(''symbol'', JStr ''BTC/USD'')] None quiet_env))) = 1
   \<and> sessions (snd (callTool active_state ''agent-1'' ''analysis.market_sentiment''
                [(''symbol'', JStr ''BTC/USD'')] None quiet_env)) = sessions active_state"
  using callTool_side_effects [of "''agent-1''" "''analysis.market_sentiment''" active_state
      "[(''symbol'', JStr ''BTC/USD'')]" None quiet_env]
  by (auto simp: active_state_fields initial_tools market_sentiment_tool_def no_usage_def)

subsection \<open>Authorization\<close>

text \<open>
  C1, on the code: \<open>callTool\<close> only checks that the agent has a permission set and
  that the tool exists and is enabled. A tool that \<open>getAvailableTools\<close> withholds from the
  agent (neither its id nor its category is allowed, or it is blocked) is dispatched all the
  same, and the call returns what the implementation returns.
\<close>

theorem callTool_ignores_permissions:
  assumes "map_of (agentPermissions st) agentId = Some perms"
    and "map_of (tools st) toolId = Some tool" and "enabled tool"
    and "(tool_id tool \<notin> set (allowedTools perms) \<and> category tool \<notin> set (allowedCategories perms))
         \<or> tool_id tool \<in> set (blockedTools (restrictions perms))"
  shows "tool \<notin> set (getAvailableTools st agentId)
     \<and> fst (callTool st agentId toolId params ctx env) =
         fst (executeTool st tool params (spread_context agentId ctx) env)
     \<and> dispatched (snd (callTool st agentId toolId params ctx env)) =
         dispatched (snd (executeTool st tool params (spread_context agentId ctx) env))"
proof (intro conjI)
  show "tool \<notin> set (getAvailableTools st agentId)"
    using assms(1,4) by (auto simp: getAvailableTools_def)
  have "resolve_and_execute st agentId toolId params ctx env =
          executeTool st tool params (spread_context agentId ctx) env"
    using assms(1-3) by (rule resolve_and_execute_enabled)
  then show "fst (callTool st agentId toolId params ctx env) =
         fst (executeTool st tool params (spread_context agentId ctx) env)"
    and "dispatched (snd (callTool st agentId toolId params ctx env)) =
         dispatched (snd (executeTool st tool params (spread_context agentId ctx) env))"
    by (simp_all add: callTool_result callTool_dispatched)
qed

text \<open>
  An agent whose permission set grants nothing and blocks the sentiment tool calls that
  tool: the implementation runs and its answer is returned.
\<close>

theorem callTool_ignores_permissions_witness:
  "map_of (agentPermissions blocked_state) ''agent-1'' = Some blocking_permissions
   \<and> ''analysis.market_sentiment'' \<in> set (blockedTools (restrictions blocking_permissions))
   \<and> allowedTools blocking_permissions = [] \<and> allowedCategories blocking_permissions = []
   \<and> market_sentiment_tool \<notin> set (getAvailableTools blocked_state ''agent-1'')
   \<and> fst (callTool blocked_state ''agent-1'' ''analysis.market_sentiment''
            [(''symbol'', JStr ''BTC/USD'')] None quiet_env) =
       Inr (JObj [(''symbol'', JStr ''BTC/USD''),
                  (''sentiment'', JStr ''Neutral market sentiment (mock data)''),
                  (''score'', JNum (1 / 10)), (''timestamp'', JNum 2001)])
   \<and> dispatched (snd (callTool blocked_state ''agent-1'' ''analysis.market_sentiment''
            [(''symbol'', JStr ''BTC/USD'')] None quiet_env)) =
       [AnalyzeMarketSentiment [(''symbol'', JStr ''BTC/USD'')] [(''agentId'', JStr ''agent-1'')]]"
proof -
  have a: "map_of (agentPermissions blocked_state) ''agent-1'' = Some blocking_permissions"
    by (simp add: blocked_state_fields)
  have b: "map_of (tools blocked_state) ''analysis.market_sentiment'' = Some market_sentiment_tool"
    by (simp add: blocked_state_fields initial_tools)
  have c: "enabled market_sentiment_tool" by (simp add: tool_ids)
  have d: "(tool_id market_sentiment_tool \<notin> set (allowedTools blocking_permissions)
            \<and> category market_sentiment_tool \<notin> set (allowedCategories blocking_permissions))
         \<or> tool_id market_sentiment_tool \<in> set (blockedTools (restrictions blocking_permissions))"
    by (simp add: blocking_permissions_def tool_ids)
  show ?thesis
    using callTool_ignores_permissions [OF a b c d, of "[(''symbol'', JStr ''BTC/USD'')]" None quiet_env]
    by (simp add: a sentiment_result analyzeMarketSentiment_def js_get_def spread_context_None
        quiet_env_def blocked_state_fields blocking_permissions_def)
qed

subsection \<open>Rate limiting\<close>





subsection \<open>Parameter validation\<close>

text \<open>
  C3, as stated, fails: an order without \<open>symbol\<close>, with a \<open>side\<close> outside the enum, a
  negative \<open>amount\<close> and a \<open>price\<close> that is no number is dispatched and the call succeeds.
\<close>

theorem callTool_dispatches_invalid_parameters:
  "spec_violates_schema place_order_tool bad_order
   \<and> fst (callTool active_state ''agent-1'' ''trading.place_order'' bad_order None quiet_env) =
       Inr (JObj [(''success'', JBool True), (''orderId'', JUndefined), (''order'', JUndefined)])
   \<and> dispatched (snd (callTool active_state ''agent-1'' ''trading.place_order'' bad_order None
                         quiet_env)) =
       [ExecuteTradeOrder bad_order [(''agentId'', JStr ''agent-1'')]]"
proof -
  have "resolve_and_execute active_state ''agent-1'' ''trading.place_order'' bad_order None quiet_env
        = executeTool active_state place_order_tool bad_order
            (spread_context ''agent-1'' None) quiet_env"
    by (rule resolve_and_execute_enabled)
       (simp_all add: active_state_fields initial_tools tool_ids)
  moreover have "spec_violates_schema place_order_tool bad_order"
    by (simp add: spec_violates_schema_def place_order_tool_def param_def spec_param_violated_def
        bad_order_def)
  ultimately show ?thesis
    by (simp add: callTool_result callTool_dispatched place_order_result executeTradeOrder_def
        call_service_def quiet_env_def active_state_fields spread_context_None)
qed

text \<open>
  C3 (amended): \<open>callTool\<close> does not validate parameters. For an agent with a
  permission set and a registered, enabled tool that has an implementation, that
  implementation is dispatched exactly once, with the parameters exactly as given and the
  context \<open>{ agentId, ...context }\<close>, whether or not the parameters satisfy the declared
  schema, and the call returns what the implementation returns for these parameters.
\<close>

theorem callTool_no_parameter_validation:
  assumes "map_of (agentPermissions st) agentId = Some perms"
    and "map_of (tools st) toolId = Some tool" and "enabled tool"
  shows "(tool_id tool = ''trading.place_order'' \<longrightarrow>
            dispatched (snd (callTool st agentId toolId params ctx env)) =
              dispatched st @ [ExecuteTradeOrder params (spread_context agentId ctx)]
            \<and> fst (callTool st agentId toolId params ctx env) =
                executeTradeOrder params (spread_context agentId ctx) env)
       \<and> (tool_id tool = ''analysis.market_sentiment'' \<longrightarrow>
            dispatched (snd (callTool st agentId toolId params ctx env)) =
              dispatched st @ [AnalyzeMarketSentiment params (spread_context agentId ctx)]
            \<and> fst (callTool st agentId toolId params ctx env) =
                analyzeMarketSentiment params (spread_context agentId ctx) env)
       \<and> (tool_id tool = ''system.create_todo'' \<longrightarrow>
            dispatched (snd (callTool st agentId toolId params ctx env)) =
              dispatched st @ [CreateTodo params (spread_context agentId ctx)]
            \<and> fst (callTool st agentId toolId params ctx env) =
                createTodo params (spread_context agentId ctx) env)"
proof -
  have "resolve_and_execute st agentId toolId params ctx env =
          executeTool st tool params (spread_context agentId ctx) env"
    using assms(1-3) by (rule resolve_and_execute_enabled)
  then show ?thesis
    by (simp add: callTool_result callTool_dispatched executeTool_def)
qed

text \<open>
  A todo whose \<open>title\<close> is a number and whose \<open>priority\<close> is outside the enum.
\<close>

theorem callTool_no_parameter_validation_witness:
  "spec_violates_schema create_todo_tool [(''title'', JNum 7), (''priority'', JStr ''urgent'')]
   \<and> dispatched (snd (callTool active_state ''agent-1'' ''system.create_todo''
                [(''title'', JNum 7), (''priority'', JStr ''urgent'')] None quiet_env)) =
       [CreateTodo [(''title'', JNum 7), (''priority'', JStr ''urgent'')]
                   [(''agentId'', JStr ''agent-1'')]]
   \<and> fst (callTool active_state ''agent-1'' ''system.create_todo''
            [(''title'', JNum 7), (''priority'', JStr ''urgent'')] None quiet_env) =
       Inr (JObj [(''success'', JBool True), (''todoId'', JUndefined), (''todo'', JUndefined)])"
proof -
  have a: "map_of (agentPermissions active_state) ''agent-1'' =
             Some (createAgentPermissions initial_state ''agent-1'')"
    by (simp add: active_state_fields)
  have b: "map_of (tools active_state) ''system.create_todo'' = Some create_todo_tool"
    by (simp add: active_state_fields initial_tools)
  have c: "enabled create_todo_tool" by (simp add: tool_ids)
  have v: "spec_violates_schema create_todo_tool [(''title'', JNum 7), (''priority'', JStr ''urgent'')]"
    by (simp add: spec_violates_schema_def create_todo_tool_def param_def spec_param_violated_def)
  show ?thesis
    using callTool_no_parameter_validation [OF a b c,
        of "[(''title'', JNum 7), (''priority'', JStr ''urgent'')]" None quiet_env] v
    by (simp add: tool_ids createTodo_def call_service_def quiet_env_def
        active_state_fields spread_context_None)
qed

subsection \<open>Usage statistics\<close>

lemma mean_step:
  fixes a d :: rat
  shows "(a * of_nat n + d) / (1 + of_nat n) = a + (d - a) / (1 + of_nat n)"
proof -
  define N :: rat where "N = 1 + of_nat n"
  have nz: "N \<noteq> 0" unfolding N_def by (simp add: add_pos_nonneg less_imp_neq [THEN not_sym])
  have n: "of_nat n = N - 1" unfolding N_def by simp
  show ?thesis unfolding n N_def [symmetric] using nz by (simp add: field_simps)
qed

lemma rate_step:
  fixes r s :: rat
  shows "((1 + of_nat n) * r + s) / (1 + of_nat n) = r + s / (1 + of_nat n)"
proof -
  define N :: rat where "N = 1 + of_nat n"
  have nz: "N \<noteq> 0" unfolding N_def by (simp add: add_pos_nonneg less_imp_neq [THEN not_sym])
  show ?thesis unfolding N_def [symmetric] using nz by (simp add: field_simps)
qed

lemma updateToolUsage_step:
  assumes "map_of (tools st) toolId = Some tool"
  shows "\<exists>tool'. map_of (tools (updateToolUsage st toolId succeeded dur now)) toolId = Some tool'
     \<and> tool' = tool\<lparr>usage := usage tool'\<rparr>
     \<and> totalCalls (usage tool') = totalCalls (usage tool) + 1
     \<and> lastUsed (usage tool') = now
     \<and> avgResponseTime (usage tool') =
         avgResponseTime (usage tool)
         + (of_int dur - avgResponseTime (usage tool)) / of_nat (totalCalls (usage tool) + 1)
     \<and> successRate (usage tool') =
         successRate (usage tool)
         + (if succeeded then 1 else 0) / of_nat (totalCalls (usage tool) + 1)"
  using assms mean_step [of "avgResponseTime (usage tool)" "totalCalls (usage tool)" "of_int dur"]
    rate_step [of "totalCalls (usage tool)" "successRate (usage tool)" 1]
  by (simp add: updateToolUsage_def Let_def update_conv')

text \<open>
  C8, on the code: after a call the target tool has \<open>totalCalls\<close> incremented by one and
  \<open>avgResponseTime\<close> updated by the incremental mean \<open>avg + (duration - avg) / n\<close>, \<open>n\<close>
  the new count. \<open>successRate\<close> becomes \<open>rate + s / n\<close>, with \<open>s\<close> 1 on success and 0 on
  failure, and not the incremental mean \<open>rate + (s - rate) / n\<close>: the old rate is
  multiplied by the new count instead of the old one.
\<close>

theorem callTool_usage_update:
  assumes "map_of (tools st) toolId = Some tool"
  shows "\<exists>tool'. map_of (tools (snd (callTool st agentId toolId params ctx env))) toolId = Some tool'
     \<and> tool' = tool\<lparr>usage := usage tool'\<rparr>
     \<and> totalCalls (usage tool') = totalCalls (usage tool) + 1
     \<and> avgResponseTime (usage tool') =
         avgResponseTime (usage tool)
         + (of_int (int (now_usage env) - int (now_start env)) - avgResponseTime (usage tool))
           / of_nat (totalCalls (usage tool) + 1)
     \<and> successRate (usage tool') =
         successRate (usage tool)
         + (if isl (fst (callTool st agentId toolId params ctx env)) then 0 else 1)
           / of_nat (totalCalls (usage tool) + 1)"
proof -
  obtain l where l: "snd (callTool st agentId toolId params ctx env) =
           updateToolUsage (logCall (snd (resolve_and_execute st agentId toolId params ctx env)) l)
             toolId (\<not> isl (fst (resolve_and_execute st agentId toolId params ctx env)))
             (int (now_usage env) - int (now_start env)) (now_lastUsed env)"
    using callTool_unfold [of st agentId toolId params ctx env] by blast
  have "map_of (tools (logCall (snd (resolve_and_execute st agentId toolId params ctx env)) l)) toolId
          = Some tool"
    using assms by (simp add: logCall_frame resolve_and_execute_frame)
  from updateToolUsage_step [OF this,
      of "\<not> isl (fst (resolve_and_execute st agentId toolId params ctx env))"
         "int (now_usage env) - int (now_start env)" "now_lastUsed env"]
  show ?thesis
    unfolding l callTool_result by auto
qed

text \<open>
  Two successful calls of the sentiment tool, each taking 3 ms: the success rate is 1
  after the first and 3/2 after the second.
\<close>

theorem callTool_usage_update_witness:
  "\<exists>tool1 tool2.
      map_of (tools (snd (callTool active_state ''agent-1'' ''analysis.market_sentiment''
                [(''symbol'', JStr ''BTC/USD'')] None quiet_env)))
        ''analysis.market_sentiment'' = Some tool1
    \<and> successRate (usage tool1) = 1
    \<and> map_of (tools (snd (callTool
                (snd (callTool active_state ''agent-1'' ''analysis.market_sentiment''
                        [(''symbol'', JStr ''BTC/USD'')] None quiet_env))
                ''agent-1'' ''analysis.market_sentiment''
                [(''symbol'', JStr ''BTC/USD'')] None quiet_env)))
        ''analysis.market_sentiment'' = Some tool2
    \<and> totalCalls (usage tool2) = 2
    \<and> avgResponseTime (usage tool2) = 3
    \<and> successRate (usage tool2) = 3 / 2"
proof -
  let ?ps = "[(''symbol'', JStr ''BTC/USD'')]"
  let ?t = "''analysis.market_sentiment''"
  let ?st1 = "snd (callTool active_state ''agent-1'' ?t ?ps None quiet_env)"
  have p0: "map_of (agentPermissions active_state) ''agent-1'' =
             Some (createAgentPermissions initial_state ''agent-1'')"
    by (simp add: active_state_fields)
  have t0: "map_of (tools active_state) ?t = Some market_sentiment_tool"
    by (simp add: active_state_fields initial_tools)
  have ok0: "\<not> isl (fst (callTool active_state ''agent-1'' ?t ?ps None quiet_env))"
    using resolve_and_execute_enabled [OF p0 t0, of ?ps None quiet_env]
    by (simp add: callTool_result tool_ids sentiment_result analyzeMarketSentiment_def)
  obtain tool1 where t1: "map_of (tools ?st1) ?t = Some tool1"
      "tool1 = market_sentiment_tool\<lparr>usage := usage tool1\<rparr>"
      "totalCalls (usage tool1) = 1" "avgResponseTime (usage tool1) = 3"
      "successRate (usage tool1) = 1"
    using callTool_usage_update [OF t0, of "''agent-1''" ?ps None quiet_env] ok0
    by (auto simp: market_sentiment_tool_def no_usage_def quiet_env_def)
  have p1: "map_of (agentPermissions ?st1) ''agent-1'' =
             Some (createAgentPermissions initial_state ''agent-1'')"
    using p0 by (simp add: callTool_frame)
  have e1: "enabled tool1" "tool_id tool1 = ?t"
    by (subst t1(2), simp add: tool_ids)+
  have ok1: "\<not> isl (fst (callTool ?st1 ''agent-1'' ?t ?ps None quiet_env))"
    using resolve_and_execute_enabled [OF p1 t1(1) e1(1), of ?ps None quiet_env]
    by (simp add: callTool_result executeTool_def e1 analyzeMarketSentiment_def)
  obtain tool2 where t2: "map_of (tools (snd (callTool ?st1 ''agent-1'' ?t ?ps None quiet_env))) ?t
        = Some tool2"
      "totalCalls (usage tool2) = 2" "avgResponseTime (usage tool2) = 3"
      "successRate (usage tool2) = 3 / 2"
    using callTool_usage_update [OF t1(1), of "''agent-1''" ?ps None quiet_env] ok1 t1(3-5)
    by (auto simp: quiet_env_def)
  from t1 t2 show ?thesis by blast
qed

section \<open>Sessions\<close>

lemma count_update:
  "length (filter P (map snd (AList.update k v al)))
     \<le> length (filter P (map snd al)) + (if P v then 1 else 0)"
  by (induction al) auto

lemma activeSessions_alt:
  "activeSessions st a =
     length (filter (\<lambda>s. session_agentId s = a \<and> session_status s = SessionActive)
               (map snd (sessions st)))"
  by (simp add: activeSessions_def)

lemma activeSessions_activate:
  "activeSessions (snd (activateForAgent g st a t1 t2)) b
     \<le> activeSessions st b + (if a = b \<and> g a \<noteq> None then 1 else 0)"
proof (cases "g a")
  case None
  then show ?thesis by (simp add: activateForAgent_def)
next
  case (Some r)
  have s: "sessions (snd (activateForAgent g st a t1 t2)) =
             AList.update (session_id (createSession a t1 t2)) (createSession a t1 t2) (sessions st)"
    using Some by (simp add: activateForAgent_def Let_def)
  have c: "session_agentId (createSession a t1 t2) = a"
      "session_status (createSession a t1 t2) = SessionActive"
    by (simp_all add: createSession_def)
  show ?thesis
    unfolding activeSessions_alt s
    using count_update [of "\<lambda>s. session_agentId s = b \<and> session_status s = SessionActive"
        "session_id (createSession a t1 t2)" "createSession a t1 t2" "sessions st"] Some
    by (simp add: c)
qed

lemma count_after_map:
  "length (filter P (map snd (map (\<lambda>(k, s). (k, f s)) xs))) =
   length (filter (\<lambda>s. P (f s)) (map snd xs))"
  by (induction xs) auto

lemma activeSessions_deactivate:
  "activeSessions (deactivateForAgent st a t) b = (if a = b then 0 else activeSessions st b)"
proof -
  let ?P = "\<lambda>s. session_agentId s = b \<and> session_status s = SessionActive"
  let ?f = "\<lambda>s. if session_agentId s = a
                 then s\<lparr>session_status := SessionCompleted, endTime := Some t\<rparr> else s"
  have e: "(\<lambda>s. ?P (?f s)) = (\<lambda>s. a \<noteq> b \<and> ?P s)"
    by (auto simp: fun_eq_iff)
  have "activeSessions (deactivateForAgent st a t) b =
          length (filter ?P (map snd (map (\<lambda>(k, s). (k, ?f s)) (sessions st))))"
    unfolding activeSessions_alt by (simp add: deactivateForAgent_def)
  also have "\<dots> = length (filter (\<lambda>s. ?P (?f s)) (map snd (sessions st)))"
    by (rule count_after_map)
  also have "\<dots> = length (filter (\<lambda>s. a \<noteq> b \<and> ?P s) (map snd (sessions st)))"
    unfolding e ..
  also have "\<dots> = (if a = b then 0 else activeSessions st b)"
    unfolding activeSessions_alt by (cases "a = b") simp_all
  finally show ?thesis .
qed

text \<open>
  C4, as stated, fails: an agent activated at time 1000 and again at time 2000, with no
  deactivation in between, has two active sessions.
\<close>

theorem two_activations_two_active_sessions:
  "activeSessions
     (fold (apply_event one_agent)
        [Activate ''agent-1'' 1000 1000, Activate ''agent-1'' 2000 2000] initial_state)
     ''agent-1'' = 2"
  by (simp add: activeSessions_def activateForAgent_def one_agent_def Let_def createSession_def
      initial_state_def initializeDefaultTools_def empty_state_def
      string_of_nat_1000 string_of_nat_2000)

lemma activeSessions_fold_bound:
  "activeSessions st a \<le> n \<Longrightarrow>
   activeSessions (fold (apply_event getAgent) es st) a \<le> open_activations getAgent a es n"
proof (induction es arbitrary: st n)
  case Nil
  then show ?case by simp
next
  case (Cons e es)
  show ?case
  proof (cases e)
    case (Activate b t1 t2)
    define c where "c = (b = a \<and> getAgent b \<noteq> None)"
    have "activeSessions (snd (activateForAgent getAgent st b t1 t2)) a
            \<le> activeSessions st a + (if c then 1 else 0)"
      unfolding c_def by (rule activeSessions_activate)
    then have "activeSessions (snd (activateForAgent getAgent st b t1 t2)) a
            \<le> (if c then n + 1 else n)"
      using Cons.prems by (cases c) simp_all
    then have "activeSessions (apply_event getAgent e st) a
            \<le> (if b = a \<and> getAgent b \<noteq> None then n + 1 else n)"
      unfolding c_def using Activate by simp
    from Cons.IH [OF this] show ?thesis using Activate by simp
  next
    case (Deactivate b t)
    have "activeSessions (apply_event getAgent e st) a \<le> (if b = a then 0 else n)"
      using Cons.prems Deactivate by (simp add: activeSessions_deactivate)
    from Cons.IH [OF this] show ?thesis using Deactivate by simp
  qed
qed

lemma count_update_exact:
  "length (filter P (map snd (AList.update k v al)))
     + (case map_of al k of None \<Rightarrow> 0 | Some s0 \<Rightarrow> if P s0 then 1 else 0)
   = length (filter P (map snd al)) + (if P v then 1 else 0)"
  by (induction al) auto

lemma activateForAgent_sessions:
  "getAgent a = Some r \<Longrightarrow>
   sessions (snd (activateForAgent getAgent st a t1 t2)) =
     AList.update (''session_'' @ a @ ''_'' @ string_of_nat t1) (createSession a t1 t2) (sessions st)"
  by (simp add: activateForAgent_def Let_def createSession_def)

lemma activeSessions_activate_exact:
  assumes "getAgent a = Some r"
  shows "activeSessions (snd (activateForAgent getAgent st a t1 t2)) a
           + (case map_of (sessions st) (''session_'' @ a @ ''_'' @ string_of_nat t1) of
                None \<Rightarrow> 0
              | Some s0 \<Rightarrow>
                  if session_agentId s0 = a \<and> session_status s0 = SessionActive then 1 else 0)
         = activeSessions st a + 1"
proof -
  have c: "session_agentId (createSession a t1 t2) = a"
      "session_status (createSession a t1 t2) = SessionActive"
    by (simp_all add: createSession_def)
  show ?thesis
    unfolding activeSessions_alt activateForAgent_sessions [of getAgent a r, OF assms]
    using count_update_exact [of "\<lambda>s. session_agentId s = a \<and> session_status s = SessionActive"
        "''session_'' @ a @ ''_'' @ string_of_nat t1" "createSession a t1 t2" "sessions st"]
    by (simp add: c)
qed

lemma activateForAgent_unknown:
  "getAgent a = None \<Longrightarrow> activateForAgent getAgent st a t1 t2 = (Inl [''Agent not found''], st)"
  by (simp add: activateForAgent_def)

lemma active_state_one_session: "activeSessions active_state ''agent-1'' = 1"
  by (simp add: activeSessions_def active_state_fields createSession_def)

text \<open>
  C4 (amended): activation of a known agent stores an active session under the id
  \<open>session_<agentId>_<time>\<close> whether or not the agent already has an active session:
  the number of its active sessions goes up by exactly one, except that a session already
  stored under that very id is replaced. Activation of an unknown agent changes nothing,
  and deactivation leaves the agent without an active session. Hence, at every point of
  any sequence of activations and deactivations, the number of active sessions of an agent
  is at most the number of its activations that found the agent since its last
  deactivation (counted on from a bound \<open>n\<close> on the active sessions at the start), not at
  most one.
\<close>

theorem activation_always_creates_session:
  "(getAgent a = Some r \<longrightarrow>
      map_of (sessions (snd (activateForAgent getAgent st a t1 t2)))
          (''session_'' @ a @ ''_'' @ string_of_nat t1) = Some (createSession a t1 t2)
      \<and> session_status (createSession a t1 t2) = SessionActive
      \<and> activeSessions (snd (activateForAgent getAgent st a t1 t2)) a
           + (case map_of (sessions st) (''session_'' @ a @ ''_'' @ string_of_nat t1) of
                None \<Rightarrow> 0
              | Some s0 \<Rightarrow>
                  if session_agentId s0 = a \<and> session_status s0 = SessionActive then 1 else 0)
         = activeSessions st a + 1)
   \<and> (getAgent a = None \<longrightarrow> snd (activateForAgent getAgent st a t1 t2) = st)
   \<and> activeSessions (deactivateForAgent st a t) a = 0
   \<and> (activeSessions st a \<le> n \<longrightarrow>
        activeSessions (fold (apply_event getAgent) es st) a \<le> open_activations getAgent a es n)"
proof (intro conjI impI)
  assume g: "getAgent a = Some r"
  show "map_of (sessions (snd (activateForAgent getAgent st a t1 t2)))
          (''session_'' @ a @ ''_'' @ string_of_nat t1) = Some (createSession a t1 t2)"
    by (simp add: activateForAgent_sessions [of getAgent a r, OF g] update_conv')
  show "session_status (createSession a t1 t2) = SessionActive"
    by (simp add: createSession_def)
  show "activeSessions (snd (activateForAgent getAgent st a t1 t2)) a
           + (case map_of (sessions st) (''session_'' @ a @ ''_'' @ string_of_nat t1) of
                None \<Rightarrow> 0
              | Some s0 \<Rightarrow>
                  if session_agentId s0 = a \<and> session_status s0 = SessionActive then 1 else 0)
         = activeSessions st a + 1"
    by (rule activeSessions_activate_exact [of getAgent a r, OF g])
next
  assume "getAgent a = None"
  then show "snd (activateForAgent getAgent st a t1 t2) = st"
    by (simp add: activateForAgent_unknown)
next
  show "activeSessions (deactivateForAgent st a t) a = 0"
    by (simp add: activeSessions_deactivate)
next
  assume "activeSessions st a \<le> n"
  then show "activeSessions (fold (apply_event getAgent) es st) a
               \<le> open_activations getAgent a es n"
    by (rule activeSessions_fold_bound)
qed

text \<open>
  An agent with one active session is activated again and has two; deactivated it has
  none; deactivated and then activated it has at most one.
\<close>

theorem activation_always_creates_session_witness:
  "one_agent ''agent-1'' = Some ''agent-1''
   \<and> activeSessions active_state ''agent-1'' = 1
   \<and> map_of (sessions active_state) ''session_agent-1_2000'' = None
   \<and> activeSessions (snd (activateForAgent one_agent active_state ''agent-1'' 2000 2000))
        ''agent-1'' = 2
   \<and> activeSessions (deactivateForAgent active_state ''agent-1'' 3000) ''agent-1'' = 0
   \<and> activeSessions
        (fold (apply_event one_agent)
           [Deactivate ''agent-1'' 1500, Activate ''agent-1'' 2000 2000] active_state)
        ''agent-1'' \<le> 1"
proof -
  have g: "one_agent ''agent-1'' = Some ''agent-1''" by (simp add: one_agent_def)
  have f: "map_of (sessions active_state) ''session_agent-1_2000'' = None"
    by (simp add: active_state_fields)
  have o: "open_activations one_agent ''agent-1''
             [Deactivate ''agent-1'' 1500, Activate ''agent-1'' 2000 2000] 1 = 1"
    by (simp add: one_agent_def)
  show ?thesis
    using activation_always_creates_session [of one_agent "''agent-1''" "''agent-1''"
        active_state 2000 2000 3000 1
        "[Deactivate ''agent-1'' 1500, Activate ''agent-1'' 2000 2000]"]
      g f o active_state_one_session
    by (simp add: string_of_nat_2000)
qed

end
